theory Spec2Isabelle
  imports Main
begin

section \<open>Schema registry\<close>

text \<open>
  The handler header includes \<^verbatim>\<open>meta_data.hpp\<close>, which declares \<^verbatim>\<open>MetaComponent\<close> and
  \<^verbatim>\<open>MetaDataset\<close>. The handler only reads a component's name; the row stride is what
  pointer advancing by whole elements multiplies with.
\<close>

record MetaComponent =
  name :: string
  component_size :: nat

record MetaDataset =
  dataset_name :: string
  components :: "MetaComponent list"

section \<open>Errors and outcomes\<close>

text \<open>
  One constructor per \<^verbatim>\<open>throw DatasetError{...}\<close> site of the handler:
  \<^item> \<open>NonBatchSizeNotOne\<close>: "For non-batch dataset, batch size should be one!"
  \<^item> \<open>CannotFindComponent\<close>: "Cannot find component!"
  \<^item> \<open>DuplicatedComponents\<close>: "Cannot have duplicated components!"
  \<^item> \<open>UniformTotalMismatch\<close>: "For a uniform buffer, totoal_element should be equal to
    elements_per_scenario * batch_size !"
  \<^item> \<open>IndptrNotSupplied\<close>: "For a non-uniform buffer, indptr should be supplied !"
  \<^item> \<open>IndptrBeginEnd\<close>: "For a non-uniform buffer, indptr should begin with 0 and end
    with total_elements !"
  \<^item> \<open>IndptrNotNull\<close>: "For a uniform buffer, indptr should be nullptr !"
  \<^item> \<open>ScenarioOutOfRange\<close>: a scenario index outside \<open>[0, batch_size)\<close> (named by the
    specification only).
\<close>

datatype dataset_error =
    NonBatchSizeNotOne
  | CannotFindComponent
  | DuplicatedComponents
  | UniformTotalMismatch
  | IndptrNotSupplied
  | IndptrBeginEnd
  | IndptrNotNull
  | ScenarioOutOfRange

text \<open>
  \<open>SchemaError\<close> is the lookup failure of the registry for an unknown name.
  \<open>UndefinedBehaviour\<close> stands for an unchecked read or write outside an array
  (\<^verbatim>\<open>operator[]\<close> of a vector or of a raw pointer): C++ gives it no meaning, and in
  particular it raises no \<^verbatim>\<open>DatasetError\<close>.
\<close>

datatype error =
    DatasetError dataset_error
  | SchemaError
  | UndefinedBehaviour

fun is_DatasetError :: "error \<Rightarrow> bool" where
  "is_DatasetError (DatasetError _) = True"
| "is_DatasetError _ = False"

text \<open>
  A member function that mutates the handler either returns, or throws; an exception
  leaves the object in the state it had when the \<^verbatim>\<open>throw\<close> was executed, so the thrown
  outcome carries that state.
\<close>

datatype 'h outcome = Returned 'h | Thrown error 'h

fun state_of :: "'h outcome \<Rightarrow> 'h" where
  "state_of (Returned h) = h"
| "state_of (Thrown e h) = h"

fun thrown_error :: "'h outcome \<Rightarrow> error option" where
  "thrown_error (Returned h) = None"
| "thrown_error (Thrown e h) = Some e"

definition succeeds :: "'h outcome \<Rightarrow> bool" where
  "succeeds r = (thrown_error r = None)"

definition fails_with_DatasetError :: "'h outcome \<Rightarrow> bool" where
  "fails_with_DatasetError r =
     (case thrown_error r of None \<Rightarrow> False | Some e \<Rightarrow> is_DatasetError e)"

section \<open>Data model of the handler\<close>

text \<open>
  \<^verbatim>\<open>Idx\<close> is a signed 64-bit integer declared outside the header. An \<^verbatim>\<open>Idx\<close> value is
  an integer in \<open>[-2^63, 2^63)\<close>. The handler's one arithmetic operation on \<^verbatim>\<open>Idx\<close>
  values that can leave that range is the product
  \<^verbatim>\<open>elements_per_scenario * batch_size()\<close> of the uniform check; the compiled code
  multiplies in 64-bit two's complement, and \<open>idx_mul\<close> writes that wrap-around out.

  A data pointer (\<^verbatim>\<open>Data*\<close>) is a byte address or null; the handler never reads through
  it. An offset-index pointer (\<^verbatim>\<open>Indptr*\<close>) is null or points to an array, given by its
  contents; a read outside that array is undefined behaviour.
\<close>

type_synonym Idx = int
type_synonym data_ptr = "nat option"
type_synonym indptr_ptr = "Idx list option"

record ComponentInfo =
  component :: MetaComponent
  elements_per_scenario :: Idx
  total_elements :: Idx

record DatasetDescription =
  is_batch :: bool
  batch_size :: Idx
  dataset :: MetaDataset
  component_info :: "ComponentInfo list"

text \<open>\<^verbatim>\<open>std::span<Indptr>\<close>: a pointer and an extent; the empty span is \<^verbatim>\<open>{nullptr, 0}\<close>.\<close>

record indptr_span =
  span_ptr :: indptr_ptr
  span_extent :: nat

record Buffer =
  data :: data_ptr
  indptr :: indptr_span

record DatasetHandler =
  description :: DatasetDescription
  buffers :: "Buffer list"

definition empty_span :: indptr_span where
  "empty_span = \<lparr>span_ptr = None, span_extent = 0\<rparr>"

text \<open>\<^verbatim>\<open>Buffer{}\<close>: value-initialised, null data pointer and empty span.\<close>

definition empty_Buffer :: Buffer where
  "empty_Buffer = \<lparr>data = None, indptr = empty_span\<rparr>"

text \<open>The values an \<^verbatim>\<open>Idx\<close> can hold.\<close>

definition idx_range :: "Idx \<Rightarrow> bool" where
  "idx_range i = (- (2 ^ 63) \<le> i \<and> i < 2 ^ 63)"

text \<open>
  The 64-bit two's complement value of an integer, and the product of two \<^verbatim>\<open>Idx\<close> values
  as the machine computes it.
\<close>

definition idx_wrap :: "int \<Rightarrow> Idx" where
  "idx_wrap i = (i + 2 ^ 63) mod 2 ^ 64 - 2 ^ 63"

definition idx_mul :: "Idx \<Rightarrow> Idx \<Rightarrow> Idx" where
  "idx_mul a b = idx_wrap (a * b)"

text \<open>\<^verbatim>\<open>static_cast<size_t>(i)\<close> of a 64-bit signed value.\<close>

definition size_t_cast :: "Idx \<Rightarrow> nat" where
  "size_t_cast i = nat (i mod 2 ^ 64)"

text \<open>\<^verbatim>\<open>p[i]\<close> on a non-null offset-index pointer; \<open>None\<close> is a read outside the array.\<close>

definition read_indptr :: "Idx list \<Rightarrow> Idx \<Rightarrow> Idx option" where
  "read_indptr xs i = (if 0 \<le> i \<and> i < int (length xs) then Some (xs ! nat i) else None)"

section \<open>Registry lookups used by the handler\<close>

text \<open>
  Modelled from the spec: \<^verbatim>\<open>MetaDataset::get_component\<close> and \<^verbatim>\<open>MetaData::get_dataset\<close>
  live in \<^verbatim>\<open>meta_data.hpp\<close>, which is not part of the sources at hand. The specification
  says that \<open>get_dataset(name)\<close> and \<open>DatasetKind.get_component(name)\<close> fail with a
  schema error if the name is unknown, and that names are unique within their scope.
\<close>

definition get_component :: "MetaDataset \<Rightarrow> string \<Rightarrow> error + MetaComponent" where
  "get_component ds cname =
     (case find (\<lambda>c. name c = cname) (components ds) of
        None \<Rightarrow> Inl SchemaError
      | Some c \<Rightarrow> Inr c)"

definition get_dataset :: "MetaDataset list \<Rightarrow> string \<Rightarrow> error + MetaDataset" where
  "get_dataset meta ds =
     (case find (\<lambda>d. dataset_name d = ds) meta of
        None \<Rightarrow> Inl SchemaError
      | Some d \<Rightarrow> Inr d)"

section \<open>The handler's member functions\<close>

text \<open>The constructor; the registry \<^verbatim>\<open>meta_data()\<close> is passed explicitly.\<close>

definition construct :: "MetaDataset list \<Rightarrow> bool \<Rightarrow> Idx \<Rightarrow> string \<Rightarrow> error + DatasetHandler" where
  "construct meta b n ds =
     (case get_dataset meta ds of
        Inl e \<Rightarrow> Inl e
      | Inr d \<Rightarrow>
          if \<not> b \<and> n \<noteq> 1 then Inl (DatasetError NonBatchSizeNotOne)
          else Inr \<lparr>description =
                      \<lparr>is_batch = b, batch_size = n, dataset = d, component_info = []\<rparr>,
                    buffers = []\<rparr>)"

definition n_components :: "DatasetHandler \<Rightarrow> Idx" where
  "n_components h = int (length (buffers h))"

definition get_description :: "DatasetHandler \<Rightarrow> DatasetDescription" where
  "get_description h = description h"

text \<open>
  \<^verbatim>\<open>std::find_if\<close> as the position of the first element satisfying the predicate; the
  length of the list is \<^verbatim>\<open>cend()\<close>.
\<close>

fun find_if :: "('a \<Rightarrow> bool) \<Rightarrow> 'a list \<Rightarrow> nat" where
  "find_if P [] = 0"
| "find_if P (x # xs) = (if P x then 0 else Suc (find_if P xs))"

definition find_component :: "DatasetHandler \<Rightarrow> string \<Rightarrow> bool \<Rightarrow> error + Idx" where
  "find_component h cname throw_not_found =
     (let infos = component_info (description h);
          found = find_if (\<lambda>x. name (component x) = cname) infos
      in if found = length infos
         then (if throw_not_found then Inl (DatasetError CannotFindComponent) else Inr (- 1))
         else Inr (int found))"

text \<open>
  \<^verbatim>\<open>get_component_info(Idx i)\<close> is \<^verbatim>\<open>description_.component_info[i]\<close>: the vector's
  unchecked subscript.
\<close>

definition get_component_info_idx :: "DatasetHandler \<Rightarrow> Idx \<Rightarrow> error + ComponentInfo" where
  "get_component_info_idx h i =
     (if 0 \<le> i \<and> i < int (length (component_info (description h)))
      then Inr (component_info (description h) ! nat i)
      else Inl UndefinedBehaviour)"

definition get_component_info :: "DatasetHandler \<Rightarrow> string \<Rightarrow> error + ComponentInfo" where
  "get_component_info h cname =
     (case find_component h cname True of
        Inl e \<Rightarrow> Inl e
      | Inr i \<Rightarrow> get_component_info_idx h i)"

definition get_buffer_idx :: "DatasetHandler \<Rightarrow> Idx \<Rightarrow> error + Buffer" where
  "get_buffer_idx h i =
     (if 0 \<le> i \<and> i < int (length (buffers h))
      then Inr (buffers h ! nat i)
      else Inl UndefinedBehaviour)"

definition get_buffer :: "DatasetHandler \<Rightarrow> string \<Rightarrow> error + Buffer" where
  "get_buffer h cname =
     (case find_component h cname True of
        Inl e \<Rightarrow> Inl e
      | Inr i \<Rightarrow> get_buffer_idx h i)"

text \<open>The private checks; \<open>None\<close> means the check returned without throwing.\<close>

definition check_uniform_integrity :: "DatasetHandler \<Rightarrow> Idx \<Rightarrow> Idx \<Rightarrow> error option" where
  "check_uniform_integrity h eps tot =
     (if eps \<ge> 0 \<and> idx_mul eps (batch_size (description h)) \<noteq> tot
      then Some (DatasetError UniformTotalMismatch)
      else None)"

text \<open>
  The template parameter \<^verbatim>\<open>check_indptr_content\<close> is the first argument. The condition
  \<^verbatim>\<open>indptr[0] != 0 || indptr[batch_size()] != total_elements\<close> is evaluated left to
  right and stops at the first true disjunct.
\<close>

definition check_non_uniform_integrity ::
    "bool \<Rightarrow> DatasetHandler \<Rightarrow> Idx \<Rightarrow> Idx \<Rightarrow> indptr_ptr \<Rightarrow> error option" where
  "check_non_uniform_integrity check_indptr_content h eps tot ip =
     (if eps < 0 then
        (case ip of
           None \<Rightarrow> Some (DatasetError IndptrNotSupplied)
         | Some xs \<Rightarrow>
             if check_indptr_content then
               (case read_indptr xs 0 of
                  None \<Rightarrow> Some UndefinedBehaviour
                | Some first \<Rightarrow>
                    if first \<noteq> 0 then Some (DatasetError IndptrBeginEnd)
                    else (case read_indptr xs (batch_size (description h)) of
                            None \<Rightarrow> Some UndefinedBehaviour
                          | Some lst \<Rightarrow>
                              if lst \<noteq> tot then Some (DatasetError IndptrBeginEnd)
                              else None))
             else None)
      else
        (case ip of
           Some xs \<Rightarrow> Some (DatasetError IndptrNotNull)
         | None \<Rightarrow> None))"

text \<open>
  \<^verbatim>\<open>add_component_info\<close>: the duplicate test, then the registry lookup (an argument of
  \<^verbatim>\<open>push_back\<close>, evaluated before it), then both \<^verbatim>\<open>push_back\<close>s, and only then
  \<^verbatim>\<open>check_uniform_integrity\<close>.
\<close>

definition push_component :: "DatasetHandler \<Rightarrow> ComponentInfo \<Rightarrow> DatasetHandler" where
  "push_component h ci =
     h\<lparr>description := (description h)\<lparr>component_info := component_info (description h) @ [ci]\<rparr>,
       buffers := buffers h @ [empty_Buffer]\<rparr>"

definition add_component_info ::
    "DatasetHandler \<Rightarrow> string \<Rightarrow> Idx \<Rightarrow> Idx \<Rightarrow> DatasetHandler outcome" where
  "add_component_info h cname eps tot =
     (case find_component h cname False of
        Inl e \<Rightarrow> Thrown e h
      | Inr idx \<Rightarrow>
          if idx \<ge> 0 then Thrown (DatasetError DuplicatedComponents) h
          else
            (case get_component (dataset (description h)) cname of
               Inl e \<Rightarrow> Thrown e h
             | Inr c \<Rightarrow>
                 let h' = push_component h
                            \<lparr>component = c, elements_per_scenario = eps, total_elements = tot\<rparr>
                 in (case check_uniform_integrity h' eps tot of
                       Some e \<Rightarrow> Thrown e h'
                     | None \<Rightarrow> Returned h')))"

text \<open>
  The span stored for a supplied offset index:
  \<^verbatim>\<open>{indptr, static_cast<size_t>(batch_size() + 1)}\<close>, else \<^verbatim>\<open>{}\<close>.
\<close>

definition make_indptr_span :: "DatasetHandler \<Rightarrow> indptr_ptr \<Rightarrow> indptr_span" where
  "make_indptr_span h ip =
     (case ip of
        Some xs \<Rightarrow> \<lparr>span_ptr = Some xs, span_extent = size_t_cast (batch_size (description h) + 1)\<rparr>
      | None \<Rightarrow> empty_span)"

text \<open>Assigning both fields of \<^verbatim>\<open>buffers_[i]\<close>; the subscript is unchecked.\<close>

definition store_buffer ::
    "DatasetHandler \<Rightarrow> nat \<Rightarrow> indptr_ptr \<Rightarrow> data_ptr \<Rightarrow> DatasetHandler outcome" where
  "store_buffer h i ip d =
     (if i < length (buffers h)
      then Returned (h\<lparr>buffers := (buffers h)[i := \<lparr>data = d, indptr = make_indptr_span h ip\<rparr>]\<rparr>)
      else Thrown UndefinedBehaviour h)"

definition add_buffer ::
    "DatasetHandler \<Rightarrow> string \<Rightarrow> Idx \<Rightarrow> Idx \<Rightarrow> indptr_ptr \<Rightarrow> data_ptr \<Rightarrow> DatasetHandler outcome" where
  "add_buffer h cname eps tot ip d =
     (case add_component_info h cname eps tot of
        Thrown e h' \<Rightarrow> Thrown e h'
      | Returned h' \<Rightarrow>
          (case check_non_uniform_integrity True h' eps tot ip of
             Some e \<Rightarrow> Thrown e h'
           | None \<Rightarrow> store_buffer h' (length (buffers h') - 1) ip d))"

definition set_buffer ::
    "DatasetHandler \<Rightarrow> string \<Rightarrow> indptr_ptr \<Rightarrow> data_ptr \<Rightarrow> DatasetHandler outcome" where
  "set_buffer h cname ip d =
     (case find_component h cname True of
        Inl e \<Rightarrow> Thrown e h
      | Inr idx \<Rightarrow>
          (case get_component_info_idx h idx of
             Inl e \<Rightarrow> Thrown e h
           | Inr info \<Rightarrow>
               (case check_non_uniform_integrity False h (elements_per_scenario info)
                       (total_elements info) ip of
                  Some e \<Rightarrow> Thrown e h
                | None \<Rightarrow> store_buffer h (nat idx) ip d)))"

text \<open>
  Every handler built by the constructor and the member functions keeps one buffer per
  component-info entry.
\<close>

definition aligned :: "DatasetHandler \<Rightarrow> bool" where
  "aligned h = (length (buffers h) = length (component_info (description h)))"

text \<open>A component counts as attached when the component-info list has an entry of its name.\<close>

definition attached :: "DatasetHandler \<Rightarrow> string \<Rightarrow> bool" where
  "attached h cname =
     (cname \<in> set (map (\<lambda>x. name (component x)) (component_info (description h))))"

text \<open>A component name is known when the handler's dataset kind lists it.\<close>

definition known :: "DatasetHandler \<Rightarrow> string \<Rightarrow> bool" where
  "known h cname = (\<exists>c. get_component (dataset (description h)) cname = Inr c)"

section \<open>A concrete registry and handler\<close>

text \<open>
  The registry of the unit tests: dataset kind "input" with the components "A" (three
  attributes, 24 bytes a row) and "B" (no attributes), and a batch handler of two
  scenarios on it.
\<close>

definition example_meta :: "MetaDataset list" where
  "example_meta =
     [\<lparr>dataset_name = ''input'',
       components = [\<lparr>name = ''A'', component_size = 24\<rparr>,
                     \<lparr>name = ''B'', component_size = 1\<rparr>]\<rparr>]"

definition example_handler :: DatasetHandler where
  "example_handler =
     \<lparr>description =
        \<lparr>is_batch = True, batch_size = 2, dataset = hd example_meta, component_info = []\<rparr>,
      buffers = []\<rparr>"

text \<open>The same test on the result of a function that returns a value or throws.\<close>

fun result_is_DatasetError :: "error + 'a \<Rightarrow> bool" where
  "result_is_DatasetError (Inl e) = is_DatasetError e"
| "result_is_DatasetError (Inr _) = False"

text \<open>The two-scenario handler after \<open>add_component_info("B", -1, 3)\<close>.\<close>

definition example_ragged_handler :: DatasetHandler where
  "example_ragged_handler =
     push_component example_handler
       \<lparr>component = \<lparr>name = ''B'', component_size = 1\<rparr>,
        elements_per_scenario = - 1, total_elements = 3\<rparr>"

section \<open>Row views and scenario slicing\<close>

text \<open>
  Modelled from the spec: pointer advancing by whole rows. \<^verbatim>\<open>MetaComponent::advance_ptr\<close>
  lives in \<^verbatim>\<open>meta_data.hpp\<close>, which is not part of the sources at hand; the specification
  gives every component a native row stride in bytes, and a slice that starts at an
  element offset starts that many strides after the buffer's address. A null pointer
  stays null.
\<close>

definition advance_ptr :: "MetaComponent \<Rightarrow> data_ptr \<Rightarrow> Idx \<Rightarrow> data_ptr" where
  "advance_ptr c p n = map_option (\<lambda>a. nat (int a + n * int (component_size c))) p"

text \<open>A row view: the address of its first element and its number of elements.\<close>

record row_span =
  span_start :: data_ptr
  span_size :: Idx

text \<open>Reading element \<open>i\<close> of a stored offset-index span; \<open>None\<close> is a read outside it.\<close>

definition read_span :: "indptr_span \<Rightarrow> Idx \<Rightarrow> Idx option" where
  "read_span sp i =
     (case span_ptr sp of
        None \<Rightarrow> None
      | Some xs \<Rightarrow> if 0 \<le> i \<and> i < int (span_extent sp) then read_indptr xs i else None)"

text \<open>
  Modelled from the spec: the element range of one scenario. The accessors
  \<^verbatim>\<open>get_buffer_span\<close>, \<^verbatim>\<open>get_buffer_span_all_scenarios\<close> and \<^verbatim>\<open>get_individual_scenario\<close>
  are exercised by the unit tests but belong to a later revision of the handler than the
  header at hand. The specification: "an explicit scenario index yields the slice
  [offset_index[s], offset_index[s+1]) for ragged components or
  [s*elements_per_scenario, (s+1)*elements_per_scenario) for uniform components", uniform
  meaning \<open>elements_per_scenario \<ge> 0\<close>.
\<close>

definition scenario_range :: "ComponentInfo \<Rightarrow> Buffer \<Rightarrow> Idx \<Rightarrow> error + Idx \<times> Idx" where
  "scenario_range info buf s =
     (if elements_per_scenario info \<ge> 0
      then Inr (s * elements_per_scenario info, (s + 1) * elements_per_scenario info)
      else
        (case read_span (indptr buf) s of
           None \<Rightarrow> Inl UndefinedBehaviour
         | Some lo \<Rightarrow>
             (case read_span (indptr buf) (s + 1) of
                None \<Rightarrow> Inl UndefinedBehaviour
              | Some hi \<Rightarrow> Inr (lo, hi))))"

definition range_span :: "ComponentInfo \<Rightarrow> Buffer \<Rightarrow> Idx \<times> Idx \<Rightarrow> row_span" where
  "range_span info buf r =
     \<lparr>span_start = advance_ptr (component info) (data buf) (fst r), span_size = snd r - fst r\<rparr>"

text \<open>
  Modelled from the spec: \<^verbatim>\<open>get_buffer_span<Component>(scenario)\<close>. "scenario = all
  yields the whole total_elements range; an explicit scenario index yields the slice
  [...]. Fails with DatasetError if the scenario index is out of [0, batch_size)."
  The scenario argument is \<open>None\<close> for "all". The component is looked up by name with the
  handler's own \<open>get_component_info\<close> and \<open>get_buffer\<close>.
\<close>

definition get_buffer_span :: "DatasetHandler \<Rightarrow> string \<Rightarrow> Idx option \<Rightarrow> error + row_span" where
  "get_buffer_span h cname scenario =
     (case get_component_info h cname of
        Inl e \<Rightarrow> Inl e
      | Inr info \<Rightarrow>
          (case get_buffer h cname of
             Inl e \<Rightarrow> Inl e
           | Inr buf \<Rightarrow>
               (case scenario of
                  None \<Rightarrow> Inr \<lparr>span_start = data buf, span_size = total_elements info\<rparr>
                | Some s \<Rightarrow>
                    if s < 0 \<or> batch_size (description h) \<le> s
                    then Inl (DatasetError ScenarioOutOfRange)
                    else
                      (case scenario_range info buf s of
                         Inl e \<Rightarrow> Inl e
                       | Inr r \<Rightarrow> Inr (range_span info buf r)))))"

text \<open>
  Modelled from the spec: \<^verbatim>\<open>get_buffer_span_all_scenarios<Component>()\<close> "produces, in
  scenario order, the ordered sequence of per-scenario spans": a loop over the scenario
  indices that collects one view after the other and stops at the first failure.
\<close>

fun collect_spans :: "DatasetHandler \<Rightarrow> string \<Rightarrow> Idx list \<Rightarrow> error + row_span list" where
  "collect_spans h cname [] = Inr []"
| "collect_spans h cname (s # ss) =
     (case get_buffer_span h cname (Some s) of
        Inl e \<Rightarrow> Inl e
      | Inr sp \<Rightarrow>
          (case collect_spans h cname ss of
             Inl e \<Rightarrow> Inl e
           | Inr sps \<Rightarrow> Inr (sp # sps)))"

definition get_buffer_span_all_scenarios :: "DatasetHandler \<Rightarrow> string \<Rightarrow> error + row_span list" where
  "get_buffer_span_all_scenarios h cname =
     collect_spans h cname (map int [0 ..< nat (batch_size (description h))])"

text \<open>
  Modelled from the spec: \<^verbatim>\<open>get_individual_scenario(scenario)\<close> "returns a new, non-batch
  (batch_size=1) handler [...] sharing the same underlying buffer memory, where every
  attached component's span is pre-sliced to that scenario; it is a view, not a copy".
  Each component keeps its registry entry, gets the scenario's element count as both
  cardinalities (as the unit test checks), the buffer address advanced to the scenario's
  first element, and no offset index. An out-of-range scenario index is a
  \<open>DatasetError\<close>.
\<close>

definition slice_component :: "Idx \<Rightarrow> ComponentInfo \<times> Buffer \<Rightarrow> error + ComponentInfo \<times> Buffer" where
  "slice_component s z =
     (case scenario_range (fst z) (snd z) s of
        Inl e \<Rightarrow> Inl e
      | Inr r \<Rightarrow>
          Inr (\<lparr>component = component (fst z),
                elements_per_scenario = snd r - fst r,
                total_elements = snd r - fst r\<rparr>,
               \<lparr>data = advance_ptr (component (fst z)) (data (snd z)) (fst r),
                indptr = empty_span\<rparr>))"

fun slice_all ::
    "Idx \<Rightarrow> (ComponentInfo \<times> Buffer) list \<Rightarrow> error + (ComponentInfo \<times> Buffer) list" where
  "slice_all s [] = Inr []"
| "slice_all s (z # zs) =
     (case slice_component s z of
        Inl e \<Rightarrow> Inl e
      | Inr c \<Rightarrow>
          (case slice_all s zs of
             Inl e \<Rightarrow> Inl e
           | Inr cs \<Rightarrow> Inr (c # cs)))"

definition get_individual_scenario :: "DatasetHandler \<Rightarrow> Idx \<Rightarrow> error + DatasetHandler" where
  "get_individual_scenario h s =
     (if s < 0 \<or> batch_size (description h) \<le> s
      then Inl (DatasetError ScenarioOutOfRange)
      else
        (case slice_all s (zip (component_info (description h)) (buffers h)) of
           Inl e \<Rightarrow> Inl e
         | Inr cs \<Rightarrow>
             Inr \<lparr>description =
                    \<lparr>is_batch = False, batch_size = 1, dataset = dataset (description h),
                     component_info = map fst cs\<rparr>,
                  buffers = map snd cs\<rparr>))"

text \<open>
  What the attach operations establish for a component's buffer: a uniform component
  has no offset index to read; a ragged one has a span of \<open>batch_size + 1\<close> elements over
  an array at least that long.
\<close>

definition layout_ok :: "Idx \<Rightarrow> ComponentInfo \<times> Buffer \<Rightarrow> bool" where
  "layout_ok bs z =
     (elements_per_scenario (fst z) \<ge> 0 \<or>
      (case span_ptr (indptr (snd z)) of
         None \<Rightarrow> False
       | Some xs \<Rightarrow> span_extent (indptr (snd z)) = nat (bs + 1) \<and> nat (bs + 1) \<le> length xs))"

definition buffers_ok :: "DatasetHandler \<Rightarrow> bool" where
  "buffers_ok h =
     (aligned h \<and>
      list_all (layout_ok (batch_size (description h)))
        (zip (component_info (description h)) (buffers h)))"

text \<open>
  The handler of the unit test "Get individual scenario": two scenarios, the uniform
  component "A" with three elements per scenario at address 1000, and the ragged
  component "B" with offset index \<open>[0, 0, 3]\<close> at address 5000.
\<close>

definition example_batch_handler :: DatasetHandler where
  "example_batch_handler =
     \<lparr>description =
        \<lparr>is_batch = True, batch_size = 2, dataset = hd example_meta,
         component_info =
           [\<lparr>component = \<lparr>name = ''A'', component_size = 24\<rparr>,
             elements_per_scenario = 3, total_elements = 6\<rparr>,
            \<lparr>component = \<lparr>name = ''B'', component_size = 1\<rparr>,
             elements_per_scenario = - 1, total_elements = 3\<rparr>]\<rparr>,
      buffers =
        [\<lparr>data = Some 1000, indptr = empty_span\<rparr>,
         \<lparr>data = Some 5000, indptr = \<lparr>span_ptr = Some [0, 0, 3], span_extent = 3\<rparr>\<rparr>]\<rparr>"

section \<open>Columnar overlay\<close>

text \<open>
  Modelled from the spec: the range object and its proxy (\<^verbatim>\<open>const_range_object\<close>,
  \<^verbatim>\<open>mutable_range_object\<close>) are exercised by the unit tests but declared in a header that
  is not part of the sources at hand. The specification (4.3): the overlay is built from
  "(length, array-of-attribute-pointers, array-of-attribute-descriptors)"; \<open>element(i)\<close>
  for \<open>0 \<le> i < n\<close> "returns a Proxy bound to index i and the attribute arrays; converting
  a Proxy to the logical record type gathers each present field by reading
  array[attribute][i]; assigning a logical record value to a Proxy scatters each present
  field to array[attribute][i], leaving absent fields in the underlying arrays
  untouched"; a field whose attribute is absent "reads as not-a-value".

  A scalar is \<open>None\<close> for not-a-value (the NaN of a real field, the reserved identifier of
  an integer field) and \<open>Some v\<close> otherwise. A logical record gives every attribute name
  its field. The caller's memory maps the address of an attribute array to the array's
  contents; a read or write outside an array is undefined behaviour.
\<close>

record MetaAttribute =
  attribute_name :: string
  attribute_offset :: nat

type_synonym 'v logical_record = "string \<Rightarrow> 'v option"
type_synonym 'v memory = "nat \<Rightarrow> 'v option list"

record range_object =
  ro_size :: Idx
  ro_buffers :: "nat list"
  ro_attributes :: "MetaAttribute list"

record proxy =
  proxy_idx :: nat
  proxy_buffers :: "nat list"
  proxy_attributes :: "MetaAttribute list"

text \<open>The record with no field set, as the default member initialisers give it.\<close>

definition unset_record :: "'v logical_record" where
  "unset_record = (\<lambda>a. None)"

definition element :: "range_object \<Rightarrow> Idx \<Rightarrow> error + proxy" where
  "element ro i =
     (if 0 \<le> i \<and> i < ro_size ro
      then Inr \<lparr>proxy_idx = nat i, proxy_buffers = ro_buffers ro,
                proxy_attributes = ro_attributes ro\<rparr>
      else Inl UndefinedBehaviour)"

fun gather ::
    "'v memory \<Rightarrow> nat \<Rightarrow> (MetaAttribute \<times> nat) list \<Rightarrow> 'v logical_record \<Rightarrow>
       error + 'v logical_record" where
  "gather mem i [] r = Inr r"
| "gather mem i ((a, p) # aps) r =
     (if i < length (mem p)
      then gather mem i aps (r(attribute_name a := mem p ! i))
      else Inl UndefinedBehaviour)"

fun scatter ::
    "'v memory \<Rightarrow> nat \<Rightarrow> (MetaAttribute \<times> nat) list \<Rightarrow> 'v logical_record \<Rightarrow>
       error + 'v memory" where
  "scatter mem i [] v = Inr mem"
| "scatter mem i ((a, p) # aps) v =
     (if i < length (mem p)
      then scatter (mem(p := (mem p)[i := v (attribute_name a)])) i aps v
      else Inl UndefinedBehaviour)"

text \<open>Conversion of a proxy to the logical record type, and assignment to a proxy.\<close>

definition proxy_get :: "'v memory \<Rightarrow> proxy \<Rightarrow> error + 'v logical_record" where
  "proxy_get mem px =
     gather mem (proxy_idx px) (zip (proxy_attributes px) (proxy_buffers px)) unset_record"

definition proxy_assign :: "'v memory \<Rightarrow> proxy \<Rightarrow> 'v logical_record \<Rightarrow> error + 'v memory" where
  "proxy_assign mem px v =
     scatter mem (proxy_idx px) (zip (proxy_attributes px) (proxy_buffers px)) v"

text \<open>
  An overlay is well-formed over a memory when it has one array per descriptor, the arrays
  are independently allocated (pairwise different addresses), and each holds at least
  \<open>n\<close> elements.
\<close>

definition overlay_ok :: "'v memory \<Rightarrow> range_object \<Rightarrow> bool" where
  "overlay_ok mem ro =
     (length (ro_buffers ro) = length (ro_attributes ro) \<and>
      distinct (ro_buffers ro) \<and>
      list_all (\<lambda>p. ro_size ro \<le> int (length (mem p))) (ro_buffers ro))"

text \<open>
  The overlay of the unit test "Test range object": three records, the columns \<open>a1\<close> at
  address 1 and \<open>id\<close> at address 2; the column \<open>a0\<close> is not attached, and the array at
  address 3 belongs to nobody.
\<close>

definition example_range_object :: range_object where
  "example_range_object =
     \<lparr>ro_size = 3, ro_buffers = [1, 2],
      ro_attributes = [\<lparr>attribute_name = ''a1'', attribute_offset = 16\<rparr>,
                       \<lparr>attribute_name = ''id'', attribute_offset = 0\<rparr>]\<rparr>"

definition example_memory :: "int memory" where
  "example_memory =
     (\<lambda>p. if p = 1 then [Some 0, Some 1, None]
          else if p = 2 then [Some 0, Some 1, Some 2]
          else if p = 3 then [Some 7, Some 8, Some 9]
          else [])"

definition example_record :: "int logical_record" where
  "example_record =
     (\<lambda>a. if a = ''id'' then Some 20 else if a = ''a0'' then Some (- 10) else None)"

text \<open>A batch handler of \<open>2^62\<close> scenarios on the same dataset kind.\<close>

definition example_big_handler :: DatasetHandler where
  "example_big_handler =
     \<lparr>description =
        \<lparr>is_batch = True, batch_size = 2 ^ 62, dataset = hd example_meta, component_info = []\<rparr>,
      buffers = []\<rparr>"

section \<open>Facts about the lookup\<close>

lemma idx_wrap_in_range: "idx_range i \<Longrightarrow> idx_wrap i = i"
  by (simp add: idx_range_def idx_wrap_def)

lemma idx_mul_in_range: "idx_range (a * b) \<Longrightarrow> idx_mul a b = a * b"
  by (simp add: idx_mul_def idx_wrap_in_range)

lemma idx_mul_range: "idx_range (idx_mul a b)"
  by (simp add: idx_mul_def idx_wrap_def idx_range_def)

lemma construct_example_big:
  "construct example_meta True (2 ^ 62) ''input'' = Inr example_big_handler"
  by (simp add: construct_def get_dataset_def example_meta_def example_big_handler_def)

lemma construct_example: "construct example_meta True 2 ''input'' = Inr example_handler"
  by (simp add: construct_def get_dataset_def example_meta_def example_handler_def)

lemma find_if_le: "find_if P xs \<le> length xs"
  by (induction xs) auto

lemma find_if_length_iff: "find_if P xs = length xs \<longleftrightarrow> (\<forall>x \<in> set xs. \<not> P x)"
  using find_if_le [of P] by (induction xs) (auto simp: Suc_n_not_le_n)

lemma find_if_nth: "find_if P xs < length xs \<Longrightarrow> P (xs ! find_if P xs)"
  by (induction xs) (auto split: if_splits)

lemma find_if_least: "i < find_if P xs \<Longrightarrow> \<not> P (xs ! i)"
  by (induction xs arbitrary: i) (auto split: if_splits simp: nth_Cons')

lemma find_component_absent:
  "\<not> attached h cname \<Longrightarrow>
     find_component h cname t = (if t then Inl (DatasetError CannotFindComponent) else Inr (- 1))"
  by (auto simp: find_component_def attached_def Let_def find_if_length_iff)

lemma find_component_present:
  "attached h cname \<Longrightarrow>
     find_component h cname t =
       Inr (int (find_if (\<lambda>x. name (component x) = cname) (component_info (description h))))"
  by (auto simp: find_component_def attached_def Let_def find_if_length_iff)

lemma example_known_A: "known example_handler ''A''"
  by (simp add: known_def example_handler_def example_meta_def get_component_def)

lemma example_not_attached: "\<not> attached example_handler c"
  by (simp add: attached_def example_handler_def)

section \<open>Attaching component info\<close>

lemma example_big_known_A: "known example_big_handler ''A''"
  by (simp add: known_def example_big_handler_def example_meta_def get_component_def)

lemma example_big_not_attached: "\<not> attached example_big_handler c"
  by (simp add: attached_def example_big_handler_def)

lemma add_component_info_big_returns:
  "add_component_info example_big_handler ''A'' 4 0 =
     Returned (push_component example_big_handler
                 \<lparr>component = \<lparr>name = ''A'', component_size = 24\<rparr>,
                  elements_per_scenario = 4, total_elements = 0\<rparr>)"
  by (simp add: add_component_info_def find_component_absent example_big_not_attached)
     (simp add: get_component_def example_big_handler_def example_meta_def
        check_uniform_integrity_def push_component_def idx_mul_def idx_wrap_def)

text \<open>
  C2, as stated, lets \<open>add_component_info\<close> with \<open>elements_per_scenario \<ge> 0\<close> succeed only if
  \<open>total_elements\<close> is the product \<open>elements_per_scenario * batch_size\<close>. On the handler of
  \<open>2^62\<close> scenarios, which the constructor builds, \<open>add_component_info("A", 4, 0)\<close>
  succeeds: the 64-bit product of 4 and \<open>2^62\<close> is 0, while the product itself is \<open>2^64\<close>.
\<close>

theorem add_component_info_wrapped_product_accepted:
  "known example_big_handler ''A'' \<and>
   \<not> attached example_big_handler ''A'' \<and>
   idx_range (batch_size (description example_big_handler)) \<and>
   succeeds (add_component_info example_big_handler ''A'' 4 0) \<and>
   (0 :: int) \<noteq> 4 * batch_size (description example_big_handler)"
  by (simp add: example_big_known_A example_big_not_attached add_component_info_big_returns
      succeeds_def)
     (simp add: example_big_handler_def idx_range_def)

text \<open>
  C2, amended. For a component name known to the dataset kind and
  \<open>elements_per_scenario \<ge> 0\<close>, \<open>add_component_info\<close> succeeds if and only if the component was
  not attached before and \<open>total_elements\<close> equals the 64-bit product
  \<open>elements_per_scenario * batch_size\<close> that the check computes; a duplicate name or a
  mismatch with that product fails with a \<open>DatasetError\<close>. Whenever the product fits in
  an \<open>Idx\<close>, it is the product itself, and both statements hold with
  \<open>total_elements = elements_per_scenario * batch_size\<close>. A successful attach appends the
  new entry after the entries already present, so \<open>get_description().component_info\<close>
  keeps the attach order.
\<close>

theorem add_component_info_uniform_iff:
  assumes "known h cname" and "0 \<le> eps"
  shows "(succeeds (add_component_info h cname eps tot) \<longleftrightarrow>
            \<not> attached h cname \<and> tot = idx_mul eps (batch_size (description h))) \<and>
         (attached h cname \<or> tot \<noteq> idx_mul eps (batch_size (description h)) \<longrightarrow>
            fails_with_DatasetError (add_component_info h cname eps tot)) \<and>
         (idx_range (eps * batch_size (description h)) \<longrightarrow>
            (succeeds (add_component_info h cname eps tot) \<longleftrightarrow>
               \<not> attached h cname \<and> tot = eps * batch_size (description h)) \<and>
            (attached h cname \<or> tot \<noteq> eps * batch_size (description h) \<longrightarrow>
               fails_with_DatasetError (add_component_info h cname eps tot))) \<and>
         (succeeds (add_component_info h cname eps tot) \<longrightarrow>
            (\<exists>c. get_component (dataset (description h)) cname = Inr c \<and>
              component_info (get_description (state_of (add_component_info h cname eps tot))) =
              component_info (get_description h) @
                [\<lparr>component = c, elements_per_scenario = eps, total_elements = tot\<rparr>]))"
proof -
  let ?r = "add_component_info h cname eps tot"
  let ?m = "idx_mul eps (batch_size (description h))"
  from assms(1) obtain c where c: "get_component (dataset (description h)) cname = Inr c"
    by (auto simp: known_def)
  have iff: "succeeds ?r \<longleftrightarrow> \<not> attached h cname \<and> tot = ?m"
  proof (cases "attached h cname")
    case True
    then show ?thesis
      by (simp add: add_component_info_def find_component_present succeeds_def)
  next
    case False
    then show ?thesis using assms(2) c
      by (auto simp add: add_component_info_def find_component_absent succeeds_def
          check_uniform_integrity_def push_component_def Let_def)
  qed
  have fail: "attached h cname \<or> tot \<noteq> ?m \<longrightarrow> fails_with_DatasetError ?r"
  proof (cases "attached h cname")
    case True
    then show ?thesis
      by (simp add: add_component_info_def find_component_present fails_with_DatasetError_def)
  next
    case False
    then show ?thesis using assms(2) c
      by (auto simp add: add_component_info_def find_component_absent
          fails_with_DatasetError_def check_uniform_integrity_def push_component_def Let_def)
  qed
  have app: "succeeds ?r \<longrightarrow>
            (\<exists>c. get_component (dataset (description h)) cname = Inr c \<and>
              component_info (get_description (state_of ?r)) =
              component_info (get_description h) @
                [\<lparr>component = c, elements_per_scenario = eps, total_elements = tot\<rparr>])"
  proof (cases "attached h cname")
    case True
    then show ?thesis
      by (simp add: add_component_info_def find_component_present succeeds_def)
  next
    case False
    then show ?thesis using assms(2) c
      by (auto simp add: add_component_info_def find_component_absent succeeds_def
          check_uniform_integrity_def push_component_def Let_def get_description_def)
  qed
  have rng: "idx_range (eps * batch_size (description h)) \<longrightarrow>
            (succeeds ?r \<longleftrightarrow> \<not> attached h cname \<and> tot = eps * batch_size (description h)) \<and>
            (attached h cname \<or> tot \<noteq> eps * batch_size (description h) \<longrightarrow>
               fails_with_DatasetError ?r)"
    using iff fail by (simp add: idx_mul_in_range)
  from iff fail rng app show ?thesis by blast
qed

theorem add_component_info_uniform_iff_witness:
  "succeeds (add_component_info example_handler ''A'' 2 4) \<and>
   fails_with_DatasetError (add_component_info example_handler ''A'' 2 5) \<and>
   fails_with_DatasetError (add_component_info example_ragged_handler ''B'' 2 4) \<and>
   map (\<lambda>x. name (component x))
     (component_info (get_description
        (state_of (add_component_info example_ragged_handler ''A'' 2 4)))) = [''B'', ''A''] \<and>
   succeeds (add_component_info example_big_handler ''A'' 4 0) \<and>
   fails_with_DatasetError (add_component_info example_big_handler ''A'' 4 1)"
proof -
  have k: "known example_handler ''A''" by (rule example_known_A)
  have e: "(0::int) \<le> 2" by simp
  have b: "batch_size (description example_handler) = 2" by (simp add: example_handler_def)
  have r: "idx_range 4" by (simp add: idx_range_def)
  from add_component_info_uniform_iff [OF k e, of 4]
  have 1: "succeeds (add_component_info example_handler ''A'' 2 4)"
    by (auto simp add: example_not_attached b r)
  from add_component_info_uniform_iff [OF k e, of 5]
  have 2: "fails_with_DatasetError (add_component_info example_handler ''A'' 2 5)"
    by (auto simp add: example_not_attached b r)
  have kB: "known example_ragged_handler ''B''" and kA: "known example_ragged_handler ''A''"
    by (simp_all add: known_def example_ragged_handler_def push_component_def example_handler_def
        example_meta_def get_component_def)
  have aB: "attached example_ragged_handler ''B''" and nA: "\<not> attached example_ragged_handler ''A''"
    by (simp_all add: attached_def example_ragged_handler_def push_component_def
        example_handler_def)
  have b': "batch_size (description example_ragged_handler) = 2"
    by (simp add: example_ragged_handler_def push_component_def example_handler_def)
  from add_component_info_uniform_iff [OF kB e, of 4] aB
  have 3: "fails_with_DatasetError (add_component_info example_ragged_handler ''B'' 2 4)"
    by simp
  from add_component_info_uniform_iff [OF kA e, of 4] nA b' r
  obtain c where c: "get_component (dataset (description example_ragged_handler)) ''A'' = Inr c"
    and app: "component_info (get_description
                (state_of (add_component_info example_ragged_handler ''A'' 2 4))) =
              component_info (get_description example_ragged_handler) @
                [\<lparr>component = c, elements_per_scenario = 2, total_elements = 4\<rparr>]"
    by auto
  from c have "name c = ''A''"
    by (auto simp: get_component_def find_Some_iff split: option.splits)
  with app have 4: "map (\<lambda>x. name (component x))
     (component_info (get_description
        (state_of (add_component_info example_ragged_handler ''A'' 2 4)))) = [''B'', ''A'']"
    by (simp add: get_description_def example_ragged_handler_def push_component_def
        example_handler_def)
  have e4: "(0::int) \<le> 4" by simp
  have m: "idx_mul 4 (batch_size (description example_big_handler)) = 0"
    by (simp add: example_big_handler_def idx_mul_def idx_wrap_def)
  from add_component_info_uniform_iff [OF example_big_known_A e4, of 0]
  have 5: "succeeds (add_component_info example_big_handler ''A'' 4 0)"
    by (simp add: example_big_not_attached m)
  from add_component_info_uniform_iff [OF example_big_known_A e4, of 1]
  have 6: "fails_with_DatasetError (add_component_info example_big_handler ''A'' 4 1)"
    by (simp add: example_big_not_attached m)
  from 1 2 3 4 5 6 show ?thesis by simp
qed

section \<open>Outcomes of the attach calls\<close>

lemma size_t_cast_nat: "0 \<le> i \<Longrightarrow> i < 2 ^ 64 \<Longrightarrow> size_t_cast i = nat i"
  by (simp add: size_t_cast_def)

lemma add_component_info_ok:
  assumes "\<not> attached h cname" and "get_component (dataset (description h)) cname = Inr c"
    and "eps < 0 \<or> tot = idx_mul eps (batch_size (description h))"
  shows "add_component_info h cname eps tot =
           Returned (push_component h \<lparr>component = c, elements_per_scenario = eps, total_elements = tot\<rparr>)"
  using assms
  by (auto simp: add_component_info_def find_component_absent check_uniform_integrity_def
      push_component_def Let_def)

lemma add_component_info_dup:
  "attached h cname \<Longrightarrow>
     add_component_info h cname eps tot = Thrown (DatasetError DuplicatedComponents) h"
  by (simp add: add_component_info_def find_component_present)

lemma add_component_info_mismatch:
  assumes "\<not> attached h cname" and "get_component (dataset (description h)) cname = Inr c"
    and "0 \<le> eps" and "tot \<noteq> idx_mul eps (batch_size (description h))"
  shows "add_component_info h cname eps tot =
           Thrown (DatasetError UniformTotalMismatch)
             (push_component h \<lparr>component = c, elements_per_scenario = eps, total_elements = tot\<rparr>)"
  using assms
  by (auto simp: add_component_info_def find_component_absent check_uniform_integrity_def
      push_component_def Let_def)

lemma push_component_simps [simp]:
  "batch_size (description (push_component h ci)) = batch_size (description h)"
  "buffers (push_component h ci) = buffers h @ [empty_Buffer]"
  "component_info (description (push_component h ci)) = component_info (description h) @ [ci]"
  "dataset (description (push_component h ci)) = dataset (description h)"
  "is_batch (description (push_component h ci)) = is_batch (description h)"
  by (simp_all add: push_component_def)

lemma check_non_uniform_integrity_push [simp]:
  "check_non_uniform_integrity b (push_component h ci) eps tot ip =
     check_non_uniform_integrity b h eps tot ip"
  by (simp add: check_non_uniform_integrity_def cong: option.case_cong if_cong)

lemma make_indptr_span_push [simp]:
  "make_indptr_span (push_component h ci) ip = make_indptr_span h ip"
  by (simp add: make_indptr_span_def cong: option.case_cong)

lemma add_buffer_ok:
  assumes "\<not> attached h cname" and "get_component (dataset (description h)) cname = Inr c"
    and "eps < 0 \<or> tot = idx_mul eps (batch_size (description h))"
    and "check_non_uniform_integrity True h eps tot ip = None"
  shows "add_buffer h cname eps tot ip d =
           Returned (h\<lparr>description := (description h)\<lparr>component_info :=
                         component_info (description h) @
                         [\<lparr>component = c, elements_per_scenario = eps, total_elements = tot\<rparr>]\<rparr>,
                       buffers := buffers h @ [\<lparr>data = d, indptr = make_indptr_span h ip\<rparr>]\<rparr>)"
proof -
  let ?ci = "\<lparr>component = c, elements_per_scenario = eps, total_elements = tot\<rparr>"
  have 1: "add_component_info h cname eps tot = Returned (push_component h ?ci)"
    by (rule add_component_info_ok [OF assms(1-3)])
  have 2: "check_non_uniform_integrity True (push_component h ?ci) eps tot ip = None"
    by (simp add: assms(4))
  have 3: "store_buffer (push_component h ?ci) (length (buffers (push_component h ?ci)) - 1) ip d =
             Returned (h\<lparr>description := (description h)\<lparr>component_info :=
                         component_info (description h) @ [?ci]\<rparr>,
                       buffers := buffers h @ [\<lparr>data = d, indptr = make_indptr_span h ip\<rparr>]\<rparr>)"
    by (simp add: store_buffer_def)
  show ?thesis
    by (simp only: add_buffer_def 1 2 3 outcome.case option.case)
qed

lemma add_component_info_example_mismatch:
  "add_component_info example_handler ''A'' 1 5 =
     Thrown (DatasetError UniformTotalMismatch)
       (push_component example_handler
          \<lparr>component = \<lparr>name = ''A'', component_size = 24\<rparr>,
           elements_per_scenario = 1, total_elements = 5\<rparr>)"
  by (rule add_component_info_mismatch [OF example_not_attached])
     (simp_all add: get_component_def example_handler_def example_meta_def idx_mul_def
        idx_wrap_def)

section \<open>Facts about the checks and the buffer setters\<close>

lemma get_component_example_A:
  "get_component (dataset (description example_handler)) ''A'' = Inr \<lparr>name = ''A'', component_size = 24\<rparr>"
  by (simp add: get_component_def example_handler_def example_meta_def)

lemma get_component_example_B:
  "get_component (dataset (description example_handler)) ''B'' = Inr \<lparr>name = ''B'', component_size = 1\<rparr>"
  by (simp add: get_component_def example_handler_def example_meta_def)

lemma batch_size_example [simp]: "batch_size (description example_handler) = 2"
  by (simp add: example_handler_def)

lemma buffers_example [simp]: "buffers example_handler = []"
  by (simp add: example_handler_def)

lemma example_known_B: "known example_handler ''B''"
  by (simp add: known_def example_handler_def example_meta_def get_component_def)

lemma example_aligned: "aligned example_handler"
  by (simp add: aligned_def example_handler_def)

lemma check_non_uniform_integrity_uniform:
  "0 \<le> eps \<Longrightarrow> check_non_uniform_integrity b h eps tot ip =
     (case ip of None \<Rightarrow> None | Some xs \<Rightarrow> Some (DatasetError IndptrNotNull))"
  by (simp add: check_non_uniform_integrity_def split: option.splits)

lemma check_non_uniform_integrity_null:
  "eps < 0 \<Longrightarrow> check_non_uniform_integrity b h eps tot None = Some (DatasetError IndptrNotSupplied)"
  by (simp add: check_non_uniform_integrity_def)

lemma check_non_uniform_integrity_content:
  assumes "eps < 0" and "0 \<le> batch_size (description h)"
    and "nat (batch_size (description h)) < length xs"
  shows "check_non_uniform_integrity True h eps tot (Some xs) =
           (if xs ! 0 \<noteq> 0 \<or> xs ! nat (batch_size (description h)) \<noteq> tot
            then Some (DatasetError IndptrBeginEnd) else None)"
  using assms by (auto simp: check_non_uniform_integrity_def read_indptr_def)

lemma check_non_uniform_integrity_no_content:
  "eps < 0 \<Longrightarrow> check_non_uniform_integrity False h eps tot (Some xs) = None"
  by (simp add: check_non_uniform_integrity_def)

lemma add_buffer_check_fails:
  assumes "\<not> attached h cname" and "get_component (dataset (description h)) cname = Inr c"
    and "eps < 0 \<or> tot = idx_mul eps (batch_size (description h))"
    and "check_non_uniform_integrity True h eps tot ip = Some e"
  shows "add_buffer h cname eps tot ip d =
           Thrown e (push_component h
                      \<lparr>component = c, elements_per_scenario = eps, total_elements = tot\<rparr>)"
  by (simp add: add_buffer_def add_component_info_ok [OF assms(1-3)] assms(4))

lemma add_buffer_info_fails:
  "add_component_info h cname eps tot = Thrown e h' \<Longrightarrow> add_buffer h cname eps tot ip d = Thrown e h'"
  by (simp add: add_buffer_def)

lemma add_component_info_DatasetError:
  assumes "known h cname" and "add_component_info h cname eps tot = Thrown e h'"
  shows "is_DatasetError e"
  using assms
  by (auto simp: add_component_info_def known_def find_component_def Let_def
      check_uniform_integrity_def split: if_splits sum.splits option.splits)

lemma example_ragged_handler_built:
  "add_component_info example_handler ''B'' (- 1) 3 = Returned example_ragged_handler"
  unfolding example_ragged_handler_def
  by (rule add_component_info_ok [OF example_not_attached get_component_example_B]) simp

lemma not_attached_iff:
  "\<not> attached h cname \<longleftrightarrow>
     (\<forall>x \<in> set (component_info (description h)). name (component x) \<noteq> cname)"
  by (auto simp: attached_def image_iff)

lemma get_component_name: "get_component ds cname = Inr c \<Longrightarrow> name c = cname"
  by (auto simp: get_component_def find_Some_iff split: option.splits)

lemma find_if_append_new:
  "\<forall>x \<in> set xs. \<not> P x \<Longrightarrow> P y \<Longrightarrow> find_if P (xs @ [y]) = length xs"
  by (induction xs) auto

lemma find_if_attached_less:
  assumes "attached h cname"
  shows "find_if (\<lambda>x. name (component x) = cname) (component_info (description h)) <
           length (component_info (description h))"
proof -
  let ?xs = "component_info (description h)"
  let ?i = "find_if (\<lambda>x. name (component x) = cname) ?xs"
  have "?i \<noteq> length ?xs" using assms by (auto simp: attached_def find_if_length_iff)
  with find_if_le [of _ ?xs] show ?thesis by (simp add: le_neq_implies_less)
qed

lemma get_component_info_present:
  assumes "attached h cname"
  shows "get_component_info h cname =
           Inr (component_info (description h) !
                  find_if (\<lambda>x. name (component x) = cname) (component_info (description h)))"
  using find_if_attached_less [OF assms]
  by (simp add: get_component_info_def find_component_present [OF assms]
      get_component_info_idx_def)

lemma get_component_info_absent:
  "\<not> attached h cname \<Longrightarrow> get_component_info h cname = Inl (DatasetError CannotFindComponent)"
  by (simp add: get_component_info_def find_component_absent)

lemma set_buffer_present:
  assumes "aligned h" and "attached h cname" and "get_component_info h cname = Inr info"
  shows "set_buffer h cname ip d =
           (case check_non_uniform_integrity False h (elements_per_scenario info)
                   (total_elements info) ip of
              Some e \<Rightarrow> Thrown e h
            | None \<Rightarrow>
                Returned (h\<lparr>buffers := (buffers h)
                   [find_if (\<lambda>x. name (component x) = cname) (component_info (description h)) :=
                      \<lparr>data = d, indptr = make_indptr_span h ip\<rparr>]\<rparr>))"
  using assms find_if_attached_less [OF assms(2)]
  by (simp add: set_buffer_def find_component_present get_component_info_present
      get_component_info_idx_def store_buffer_def aligned_def split: option.splits)

lemma example_ragged_aligned: "aligned example_ragged_handler"
  by (simp add: aligned_def example_ragged_handler_def example_handler_def)

lemma example_ragged_attached: "attached example_ragged_handler ''B''"
  by (simp add: attached_def example_ragged_handler_def example_handler_def)

lemma example_ragged_info:
  "get_component_info example_ragged_handler ''B'' =
     Inr \<lparr>component = \<lparr>name = ''B'', component_size = 1\<rparr>,
          elements_per_scenario = - 1, total_elements = 3\<rparr>"
  by (simp add: get_component_info_present [OF example_ragged_attached])
     (simp add: example_ragged_handler_def example_handler_def)

section \<open>Attaching a buffer in one call\<close>

text \<open>
  C3, as stated, ends with "otherwise the buffer is stored with an offset-index span of
  length \<open>batch_size + 1\<close>". A uniform attach with a null offset index is such a call:
  on the two-scenario handler, \<open>add_buffer("A", 2, 4, nullptr, data)\<close> succeeds and the
  stored span has length 0, not 3.
\<close>

theorem add_buffer_uniform_stores_empty_span:
  "succeeds (add_buffer example_handler ''A'' 2 4 None (Some 1000)) \<and>
   span_extent (indptr (last (buffers (state_of (add_buffer example_handler ''A'' 2 4 None (Some 1000))))))
     \<noteq> nat (batch_size (description example_handler) + 1) \<and>
   nat (batch_size (description example_handler) + 1) = 3"
  by (simp add: add_buffer_ok [OF example_not_attached get_component_example_A]
      check_non_uniform_integrity_uniform succeeds_def make_indptr_span_def empty_span_def
      idx_mul_def idx_wrap_def)

text \<open>
  C3, amended. For a component name known to the dataset kind: with
  \<open>elements_per_scenario = -1\<close>, a null offset index fails with a \<open>DatasetError\<close>, and so
  does a supplied index of at least \<open>batch_size + 1\<close> elements whose first element is not
  0 or whose element at position \<open>batch_size\<close> is not \<open>total_elements\<close>; with
  \<open>elements_per_scenario \<ge> 0\<close>, a supplied index fails with a \<open>DatasetError\<close>. Otherwise,
  for a component not attached before, the buffer is stored: with a span of length
  \<open>batch_size + 1\<close> over the supplied index for the ragged layout, and with the empty
  span for a uniform layout whose \<open>total_elements\<close> is an \<open>Idx\<close> equal to
  \<open>elements_per_scenario * batch_size\<close> (or, more generally, equal to the 64-bit product
  that the uniform check computes).
\<close>

theorem add_buffer_validation:
  assumes "known h cname"
  shows
   "(eps = - 1 \<and> ip = None \<longrightarrow> fails_with_DatasetError (add_buffer h cname eps tot ip d)) \<and>
    (eps = - 1 \<and> ip = Some xs \<and> 0 \<le> batch_size (description h) \<and>
       nat (batch_size (description h)) < length xs \<and>
       (xs ! 0 \<noteq> 0 \<or> xs ! nat (batch_size (description h)) \<noteq> tot) \<longrightarrow>
         fails_with_DatasetError (add_buffer h cname eps tot ip d)) \<and>
    (0 \<le> eps \<and> ip = Some xs \<longrightarrow> fails_with_DatasetError (add_buffer h cname eps tot ip d)) \<and>
    (\<not> attached h cname \<and> eps = - 1 \<and> ip = Some xs \<and> 0 \<le> batch_size (description h) \<and>
       idx_range (batch_size (description h)) \<and>
       nat (batch_size (description h)) < length xs \<and>
       xs ! 0 = 0 \<and> xs ! nat (batch_size (description h)) = tot \<longrightarrow>
         succeeds (add_buffer h cname eps tot ip d) \<and>
         last (buffers (state_of (add_buffer h cname eps tot ip d))) =
           \<lparr>data = d, indptr = \<lparr>span_ptr = Some xs,
                                span_extent = nat (batch_size (description h) + 1)\<rparr>\<rparr>) \<and>
    (\<not> attached h cname \<and> 0 \<le> eps \<and> idx_range tot \<and>
       tot = eps * batch_size (description h) \<and> ip = None \<longrightarrow>
         succeeds (add_buffer h cname eps tot ip d) \<and>
         last (buffers (state_of (add_buffer h cname eps tot ip d))) =
           \<lparr>data = d, indptr = empty_span\<rparr>) \<and>
    (\<not> attached h cname \<and> 0 \<le> eps \<and>
       tot = idx_mul eps (batch_size (description h)) \<and> ip = None \<longrightarrow>
         succeeds (add_buffer h cname eps tot ip d) \<and>
         last (buffers (state_of (add_buffer h cname eps tot ip d))) =
           \<lparr>data = d, indptr = empty_span\<rparr>)"
proof -
  from assms obtain c where c: "get_component (dataset (description h)) cname = Inr c"
    by (auto simp: known_def)
  have info: "\<And>e h'. add_component_info h cname eps tot = Thrown e h' \<Longrightarrow>
                fails_with_DatasetError (add_buffer h cname eps tot ip d)"
    using add_component_info_DatasetError [OF assms]
    by (simp add: add_buffer_info_fails fails_with_DatasetError_def)
  have chk: "\<And>e. is_DatasetError e \<Longrightarrow> check_non_uniform_integrity True h eps tot ip = Some e \<Longrightarrow>
                fails_with_DatasetError (add_buffer h cname eps tot ip d)"
  proof -
    fix e assume e: "is_DatasetError e" "check_non_uniform_integrity True h eps tot ip = Some e"
    show "fails_with_DatasetError (add_buffer h cname eps tot ip d)"
    proof (cases "add_component_info h cname eps tot")
      case (Thrown e' h')
      then show ?thesis by (rule info)
    next
      case (Returned h')
      then show ?thesis using e
        by (simp add: add_buffer_def fails_with_DatasetError_def)
           (auto simp: add_component_info_def Let_def split: sum.splits if_splits option.splits)
    qed
  qed
  have 1: "eps = - 1 \<and> ip = None \<longrightarrow> fails_with_DatasetError (add_buffer h cname eps tot ip d)"
    using chk [of "DatasetError IndptrNotSupplied"] by (auto simp: check_non_uniform_integrity_null)
  have 2: "eps = - 1 \<and> ip = Some xs \<and> 0 \<le> batch_size (description h) \<and>
       nat (batch_size (description h)) < length xs \<and>
       (xs ! 0 \<noteq> 0 \<or> xs ! nat (batch_size (description h)) \<noteq> tot) \<longrightarrow>
         fails_with_DatasetError (add_buffer h cname eps tot ip d)"
    using chk [of "DatasetError IndptrBeginEnd"] by (auto simp: check_non_uniform_integrity_content)
  have 3: "0 \<le> eps \<and> ip = Some xs \<longrightarrow> fails_with_DatasetError (add_buffer h cname eps tot ip d)"
    using chk [of "DatasetError IndptrNotNull"] by (auto simp: check_non_uniform_integrity_uniform)
  have 4: "\<not> attached h cname \<and> eps = - 1 \<and> ip = Some xs \<and> 0 \<le> batch_size (description h) \<and>
       idx_range (batch_size (description h)) \<and>
       nat (batch_size (description h)) < length xs \<and>
       xs ! 0 = 0 \<and> xs ! nat (batch_size (description h)) = tot \<longrightarrow>
         succeeds (add_buffer h cname eps tot ip d) \<and>
         last (buffers (state_of (add_buffer h cname eps tot ip d))) =
           \<lparr>data = d, indptr = \<lparr>span_ptr = Some xs,
                                span_extent = nat (batch_size (description h) + 1)\<rparr>\<rparr>"
    by (auto simp: add_buffer_ok [OF _ c] check_non_uniform_integrity_content succeeds_def
        make_indptr_span_def size_t_cast_nat idx_range_def)
  have 6: "\<not> attached h cname \<and> 0 \<le> eps \<and>
       tot = idx_mul eps (batch_size (description h)) \<and> ip = None \<longrightarrow>
         succeeds (add_buffer h cname eps tot ip d) \<and>
         last (buffers (state_of (add_buffer h cname eps tot ip d))) =
           \<lparr>data = d, indptr = empty_span\<rparr>"
    by (auto simp: add_buffer_ok [OF _ c] check_non_uniform_integrity_uniform succeeds_def
        make_indptr_span_def)
  have "idx_range tot \<and> tot = eps * batch_size (description h) \<longrightarrow>
          tot = idx_mul eps (batch_size (description h))"
    by (auto simp: idx_mul_in_range)
  with 6 have 5: "\<not> attached h cname \<and> 0 \<le> eps \<and> idx_range tot \<and>
       tot = eps * batch_size (description h) \<and> ip = None \<longrightarrow>
         succeeds (add_buffer h cname eps tot ip d) \<and>
         last (buffers (state_of (add_buffer h cname eps tot ip d))) =
           \<lparr>data = d, indptr = empty_span\<rparr>"
    by blast
  from 1 2 3 4 5 6 show ?thesis by blast
qed

theorem add_buffer_validation_witness:
  "fails_with_DatasetError (add_buffer example_handler ''A'' (- 1) 5 None (Some 1000)) \<and>
   fails_with_DatasetError (add_buffer example_handler ''A'' (- 1) 5 (Some [1, 3, 5]) (Some 1000)) \<and>
   fails_with_DatasetError (add_buffer example_handler ''A'' 2 4 (Some [0, 2, 4]) (Some 1000)) \<and>
   succeeds (add_buffer example_handler ''A'' (- 1) 5 (Some [0, 3, 5]) (Some 1000)) \<and>
   last (buffers (state_of (add_buffer example_handler ''A'' (- 1) 5 (Some [0, 3, 5]) (Some 1000)))) =
     \<lparr>data = Some 1000, indptr = \<lparr>span_ptr = Some [0, 3, 5], span_extent = 3\<rparr>\<rparr> \<and>
   succeeds (add_buffer example_handler ''A'' 2 4 None (Some 1000)) \<and>
   last (buffers (state_of (add_buffer example_handler ''A'' 2 4 None (Some 1000)))) =
     \<lparr>data = Some 1000, indptr = empty_span\<rparr>"
proof -
  note t = add_buffer_validation [OF example_known_A]
  have 1: "fails_with_DatasetError (add_buffer example_handler ''A'' (- 1) 5 None (Some 1000))"
    using t [where eps = "- 1" and ip = None and tot = 5 and d = "Some 1000"] by simp
  have 2: "fails_with_DatasetError
             (add_buffer example_handler ''A'' (- 1) 5 (Some [1, 3, 5]) (Some 1000))"
    using t [where eps = "- 1" and ip = "Some [1, 3, 5]" and xs = "[1, 3, 5]" and tot = 5
                and d = "Some 1000"] by simp
  have 3: "fails_with_DatasetError
             (add_buffer example_handler ''A'' 2 4 (Some [0, 2, 4]) (Some 1000))"
    using t [where eps = 2 and ip = "Some [0, 2, 4]" and xs = "[0, 2, 4]" and tot = 4
                and d = "Some 1000"] by simp
  have 4: "succeeds (add_buffer example_handler ''A'' (- 1) 5 (Some [0, 3, 5]) (Some 1000)) \<and>
     last (buffers (state_of
        (add_buffer example_handler ''A'' (- 1) 5 (Some [0, 3, 5]) (Some 1000)))) =
     \<lparr>data = Some 1000, indptr = \<lparr>span_ptr = Some [0, 3, 5], span_extent = 3\<rparr>\<rparr>"
    using t [where eps = "- 1" and ip = "Some [0, 3, 5]" and xs = "[0, 3, 5]" and tot = 5
                and d = "Some 1000"]
    by (simp add: example_not_attached idx_range_def)
  have 5: "succeeds (add_buffer example_handler ''A'' 2 4 None (Some 1000)) \<and>
     last (buffers (state_of (add_buffer example_handler ''A'' 2 4 None (Some 1000)))) =
     \<lparr>data = Some 1000, indptr = empty_span\<rparr>"
    using t [where eps = 2 and ip = None and tot = 4 and d = "Some 1000"]
    by (simp add: example_not_attached idx_range_def)
  from 1 2 3 4 5 show ?thesis by simp
qed

section \<open>Setting the buffer of an attached component\<close>

text \<open>
  C5. For an attached component, \<open>set_buffer\<close> succeeds exactly when the offset index is
  supplied for a negative \<open>elements_per_scenario\<close> and null for a non-negative one, as
  fixed by \<open>add_component_info\<close>; every failure is a \<open>DatasetError\<close>; and for a ragged
  component it succeeds for every supplied index, whatever its contents, so also when
  the first element is not 0 or the element at \<open>batch_size\<close> is not \<open>total_elements\<close>.
\<close>

theorem set_buffer_presence_only:
  assumes "aligned h" and "attached h cname" and "get_component_info h cname = Inr info"
  shows "(succeeds (set_buffer h cname ip d) \<longleftrightarrow> (elements_per_scenario info < 0) = (ip \<noteq> None)) \<and>
         (\<not> succeeds (set_buffer h cname ip d) \<longrightarrow>
            fails_with_DatasetError (set_buffer h cname ip d)) \<and>
         (elements_per_scenario info < 0 \<longrightarrow>
            fails_with_DatasetError (set_buffer h cname None d) \<and>
            succeeds (set_buffer h cname (Some xs) d))"
  by (auto simp: set_buffer_present [OF assms] succeeds_def fails_with_DatasetError_def
      check_non_uniform_integrity_def split: option.splits)

theorem set_buffer_presence_only_witness:
  "succeeds (set_buffer example_ragged_handler ''B'' (Some [1, 2, 7]) (Some 1000)) \<and>
   fails_with_DatasetError (set_buffer example_ragged_handler ''B'' None (Some 1000))"
  using set_buffer_presence_only [OF example_ragged_aligned example_ragged_attached example_ragged_info,
            of "Some [1, 2, 7]" "Some 1000" "[1, 2, 7]"]
  by simp

section \<open>Looking components up\<close>

text \<open>
  C9, as stated, has \<open>get_component_info\<close> by index fail with a \<open>DatasetError\<close> for an
  absent component. The handler without components has no entry at index 0, and
  \<open>get_component_info(0)\<close> is the vector's unchecked subscript: no \<open>DatasetError\<close>.
\<close>

theorem get_component_info_idx_unchecked:
  "n_components example_handler = 0 \<and>
   \<not> result_is_DatasetError (get_component_info_idx example_handler 0)"
  by (simp add: get_component_info_idx_def example_handler_def n_components_def)

text \<open>
  C9, amended. \<open>find_component(name)\<close> returns the position of the first entry of that
  name in the attach-ordered component-info list when the component is attached; when
  it is not, it returns \<open>-1\<close> if \<open>throw_not_found\<close> is false and fails with a
  \<open>DatasetError\<close> if it is true, and \<open>get_component_info\<close> by name fails with a
  \<open>DatasetError\<close>. \<open>get_component_info\<close> by index returns the entry at an index in
  \<open>[0, n)\<close> and never fails with a \<open>DatasetError\<close>.
\<close>

theorem find_component_lookup:
  "(attached h cname \<longrightarrow>
      (\<exists>i. find_component h cname t = Inr (int i) \<and>
           i < length (component_info (get_description h)) \<and>
           name (component (component_info (get_description h) ! i)) = cname \<and>
           (\<forall>j < i. name (component (component_info (get_description h) ! j)) \<noteq> cname))) \<and>
   (\<not> attached h cname \<longrightarrow>
      find_component h cname False = Inr (- 1) \<and>
      find_component h cname True = Inl (DatasetError CannotFindComponent) \<and>
      get_component_info h cname = Inl (DatasetError CannotFindComponent)) \<and>
   (0 \<le> k \<and> k < int (length (component_info (get_description h))) \<longrightarrow>
      get_component_info_idx h k = Inr (component_info (get_description h) ! nat k)) \<and>
   \<not> result_is_DatasetError (get_component_info_idx h k)"
proof -
  let ?P = "\<lambda>x. name (component x) = cname"
  let ?xs = "component_info (description h)"
  have 1: "attached h cname \<longrightarrow>
      (\<exists>i. find_component h cname t = Inr (int i) \<and> i < length ?xs \<and>
           name (component (?xs ! i)) = cname \<and>
           (\<forall>j < i. name (component (?xs ! j)) \<noteq> cname))"
  proof
    assume a: "attached h cname"
    have "find_component h cname t = Inr (int (find_if ?P ?xs))"
      by (rule find_component_present [OF a])
    moreover have "find_if ?P ?xs < length ?xs" by (rule find_if_attached_less [OF a])
    moreover from this have "?P (?xs ! find_if ?P ?xs)" by (rule find_if_nth)
    moreover have "\<forall>j < find_if ?P ?xs. \<not> ?P (?xs ! j)"
      using find_if_least [of _ ?P ?xs] by blast
    ultimately show "\<exists>i. find_component h cname t = Inr (int i) \<and> i < length ?xs \<and>
           name (component (?xs ! i)) = cname \<and>
           (\<forall>j < i. name (component (?xs ! j)) \<noteq> cname)" by blast
  qed
  have 2: "\<not> attached h cname \<longrightarrow>
      find_component h cname False = Inr (- 1) \<and>
      find_component h cname True = Inl (DatasetError CannotFindComponent) \<and>
      get_component_info h cname = Inl (DatasetError CannotFindComponent)"
    by (simp add: find_component_absent get_component_info_absent)
  have 3: "(0 \<le> k \<and> k < int (length ?xs) \<longrightarrow> get_component_info_idx h k = Inr (?xs ! nat k)) \<and>
           \<not> result_is_DatasetError (get_component_info_idx h k)"
    by (simp add: get_component_info_idx_def)
  from 1 2 3 show ?thesis by (simp add: get_description_def)
qed

theorem find_component_lookup_witness:
  "find_component example_ragged_handler ''B'' False = Inr 0 \<and>
   find_component example_ragged_handler ''A'' False = Inr (- 1) \<and>
   find_component example_ragged_handler ''A'' True = Inl (DatasetError CannotFindComponent) \<and>
   get_component_info example_ragged_handler ''A'' = Inl (DatasetError CannotFindComponent) \<and>
   get_component_info_idx example_ragged_handler 0 =
     Inr \<lparr>component = \<lparr>name = ''B'', component_size = 1\<rparr>,
          elements_per_scenario = - 1, total_elements = 3\<rparr>"
proof -
  have nA: "\<not> attached example_ragged_handler ''A''"
    by (simp add: attached_def example_ragged_handler_def example_handler_def)
  have len: "length (component_info (get_description example_ragged_handler)) = 1"
    by (simp add: get_description_def example_ragged_handler_def example_handler_def)
  have nth: "component_info (get_description example_ragged_handler) ! 0 =
     \<lparr>component = \<lparr>name = ''B'', component_size = 1\<rparr>,
          elements_per_scenario = - 1, total_elements = 3\<rparr>"
    by (simp add: get_description_def example_ragged_handler_def example_handler_def)
  have 1: "find_component example_ragged_handler ''B'' False = Inr 0"
    using find_component_lookup [of example_ragged_handler "''B''" False 0] example_ragged_attached len
    by auto
  have 2: "find_component example_ragged_handler ''A'' False = Inr (- 1) \<and>
   find_component example_ragged_handler ''A'' True = Inl (DatasetError CannotFindComponent) \<and>
   get_component_info example_ragged_handler ''A'' = Inl (DatasetError CannotFindComponent) \<and>
   get_component_info_idx example_ragged_handler 0 =
     Inr \<lparr>component = \<lparr>name = ''B'', component_size = 1\<rparr>,
          elements_per_scenario = - 1, total_elements = 3\<rparr>"
    using find_component_lookup [of example_ragged_handler "''A''" False 0] nA len nth
    by simp
  from 1 2 show ?thesis by simp
qed

section \<open>Negative cardinalities\<close>

text \<open>
  C10. Every negative \<open>elements_per_scenario\<close> is the ragged layout: for a known
  component not attached before, \<open>add_component_info\<close> succeeds for any
  \<open>total_elements\<close>; the index check gives the same verdict as for \<open>-1\<close>, and so
  \<open>add_buffer\<close> throws the same error, or none, as for \<open>-1\<close>; a null offset index
  fails with a \<open>DatasetError\<close> in \<open>add_buffer\<close> and in \<open>set_buffer\<close>, and \<open>set_buffer\<close>
  accepts a supplied one.
\<close>

theorem negative_elements_per_scenario_ragged:
  assumes "known h cname" and "\<not> attached h cname" and "aligned h" and "eps < 0"
  shows "succeeds (add_component_info h cname eps tot) \<and>
         check_non_uniform_integrity b h eps tot ip = check_non_uniform_integrity b h (- 1) tot ip \<and>
         thrown_error (add_buffer h cname eps tot ip d) =
           thrown_error (add_buffer h cname (- 1) tot ip d) \<and>
         fails_with_DatasetError (add_buffer h cname eps tot None d) \<and>
         fails_with_DatasetError
           (set_buffer (state_of (add_component_info h cname eps tot)) cname None d) \<and>
         succeeds (set_buffer (state_of (add_component_info h cname eps tot)) cname (Some xs) d)"
proof -
  from assms(1) obtain c where c: "get_component (dataset (description h)) cname = Inr c"
    by (auto simp: known_def)
  let ?ci = "\<lambda>e. \<lparr>component = c, elements_per_scenario = e, total_elements = tot\<rparr>"
  let ?h' = "push_component h (?ci eps)"
  have ok: "\<And>e. e < 0 \<Longrightarrow> add_component_info h cname e tot = Returned (push_component h (?ci e))"
    using add_component_info_ok [OF assms(2) c] by simp
  have 1: "succeeds (add_component_info h cname eps tot)"
    by (simp add: ok assms(4) succeeds_def)
  have 2: "\<And>b h. check_non_uniform_integrity b h eps tot ip =
                check_non_uniform_integrity b h (- 1) tot ip"
    using assms(4) by (simp add: check_non_uniform_integrity_def)
  have 3: "thrown_error (add_buffer h cname eps tot ip d) =
           thrown_error (add_buffer h cname (- 1) tot ip d)"
    using assms(4) 2 [of True]
    by (simp add: add_buffer_def ok store_buffer_def split: option.splits)
  have 4: "fails_with_DatasetError (add_buffer h cname eps tot None d)"
    using assms(4)
    by (simp add: add_buffer_def ok check_non_uniform_integrity_null fails_with_DatasetError_def)
  have al: "aligned ?h'" using assms(3) by (simp add: aligned_def)
  have at: "attached ?h' cname" using get_component_name [OF c] by (simp add: attached_def)
  have "find_if (\<lambda>x. name (component x) = cname) (component_info (description ?h')) =
          length (component_info (description h))"
    using assms(2) get_component_name [OF c]
    by (simp add: not_attached_iff find_if_append_new)
  then have inf: "get_component_info ?h' cname = Inr (?ci eps)"
    by (simp add: get_component_info_present [OF at])
  have 5: "fails_with_DatasetError (set_buffer ?h' cname None d)"
    using assms(4)
    by (simp add: set_buffer_present [OF al at inf] check_non_uniform_integrity_null
        fails_with_DatasetError_def)
  have 6: "succeeds (set_buffer ?h' cname (Some xs) d)"
    using assms(4)
    by (simp add: set_buffer_present [OF al at inf] check_non_uniform_integrity_no_content
        succeeds_def)
  from 1 2 3 4 5 6 show ?thesis by (simp add: ok assms(4))
qed

theorem negative_elements_per_scenario_ragged_witness:
  "succeeds (add_component_info example_handler ''B'' (- 5) 7) \<and>
   fails_with_DatasetError (add_buffer example_handler ''B'' (- 5) 7 None (Some 1000)) \<and>
   thrown_error (add_buffer example_handler ''B'' (- 5) 7 (Some [0, 3, 7]) (Some 1000)) =
     thrown_error (add_buffer example_handler ''B'' (- 1) 7 (Some [0, 3, 7]) (Some 1000)) \<and>
   fails_with_DatasetError
     (set_buffer (state_of (add_component_info example_handler ''B'' (- 5) 7)) ''B'' None (Some 1000)) \<and>
   succeeds
     (set_buffer (state_of (add_component_info example_handler ''B'' (- 5) 7)) ''B''
        (Some [0, 3, 7]) (Some 1000))"
proof -
  have neg: "(- 5 :: int) < 0" by simp
  from negative_elements_per_scenario_ragged [OF example_known_B example_not_attached example_aligned neg,
      of 7 _ "Some [0, 3, 7]" "Some 1000" "[0, 3, 7]"]
  show ?thesis by simp
qed

section \<open>Row views of one scenario\<close>

lemma example_batch_built:
  "add_buffer (state_of (add_buffer example_handler ''A'' 3 6 None (Some 1000))) ''B'' (- 1) 3
      (Some [0, 0, 3]) (Some 5000) = Returned example_batch_handler"
  by (simp add: add_buffer_def add_component_info_def find_component_def get_component_def
      example_handler_def example_meta_def check_uniform_integrity_def push_component_def
      idx_mul_def idx_wrap_def check_non_uniform_integrity_def read_indptr_def store_buffer_def make_indptr_span_def
      size_t_cast_def example_batch_handler_def empty_Buffer_def Let_def)

lemma get_buffer_present:
  assumes "aligned h" and "attached h cname"
  shows "get_buffer h cname =
           Inr (buffers h ! find_if (\<lambda>x. name (component x) = cname) (component_info (description h)))"
  using find_if_attached_less [OF assms(2)] assms(1)
  by (simp add: get_buffer_def find_component_present [OF assms(2)] get_buffer_idx_def aligned_def)

lemma get_buffer_span_present:
  assumes "get_component_info h cname = Inr info" and "get_buffer h cname = Inr buf"
  shows "get_buffer_span h cname scenario =
           (case scenario of
              None \<Rightarrow> Inr \<lparr>span_start = data buf, span_size = total_elements info\<rparr>
            | Some s \<Rightarrow>
                if s < 0 \<or> batch_size (description h) \<le> s
                then Inl (DatasetError ScenarioOutOfRange)
                else (case scenario_range info buf s of
                        Inl e \<Rightarrow> Inl e
                      | Inr r \<Rightarrow> Inr (range_span info buf r)))"
  by (simp add: get_buffer_span_def assms)

lemma scenario_range_uniform:
  "0 \<le> elements_per_scenario info \<Longrightarrow>
     scenario_range info buf s =
       Inr (s * elements_per_scenario info, (s + 1) * elements_per_scenario info)"
  by (simp add: scenario_range_def)

lemma scenario_range_ragged:
  assumes "elements_per_scenario info < 0" and "span_ptr (indptr buf) = Some idx"
    and "span_extent (indptr buf) = nat (bs + 1)" and "nat (bs + 1) \<le> length idx"
    and "0 \<le> s" and "s < bs"
  shows "scenario_range info buf s = Inr (idx ! nat s, idx ! nat (s + 1))"
  using assms by (simp add: scenario_range_def read_span_def read_indptr_def)

text \<open>
  C4. For an attached component and a scenario \<open>s\<close> in \<open>[0, batch_size)\<close>: if the component
  is uniform with \<open>elements_per_scenario = e\<close>, \<open>get_buffer_span(s)\<close> starts \<open>s * e\<close>
  elements into the component's data buffer and has length \<open>e\<close>; if it is ragged with
  offset index \<open>idx\<close>, the view starts \<open>idx[s]\<close> elements into the buffer and has length
  \<open>idx[s+1] - idx[s]\<close>.
\<close>

theorem get_buffer_span_slice:
  assumes "get_component_info h cname = Inr info" and "get_buffer h cname = Inr buf"
    and "0 \<le> s" and "s < batch_size (description h)"
  shows "(0 \<le> elements_per_scenario info \<longrightarrow>
            get_buffer_span h cname (Some s) =
              Inr \<lparr>span_start = advance_ptr (component info) (data buf)
                                   (s * elements_per_scenario info),
                   span_size = elements_per_scenario info\<rparr>) \<and>
         (elements_per_scenario info < 0 \<and> span_ptr (indptr buf) = Some idx \<and>
          span_extent (indptr buf) = nat (batch_size (description h) + 1) \<and>
          nat (batch_size (description h) + 1) \<le> length idx \<longrightarrow>
            get_buffer_span h cname (Some s) =
              Inr \<lparr>span_start = advance_ptr (component info) (data buf) (idx ! nat s),
                   span_size = idx ! nat (s + 1) - idx ! nat s\<rparr>)"
proof -
  have u: "0 \<le> elements_per_scenario info \<Longrightarrow>
            get_buffer_span h cname (Some s) =
              Inr \<lparr>span_start = advance_ptr (component info) (data buf)
                                   (s * elements_per_scenario info),
                   span_size = elements_per_scenario info\<rparr>"
    using assms(3,4)
    by (simp add: get_buffer_span_present [OF assms(1,2)] scenario_range_uniform range_span_def
        algebra_simps)
  have r: "elements_per_scenario info < 0 \<Longrightarrow> span_ptr (indptr buf) = Some idx \<Longrightarrow>
          span_extent (indptr buf) = nat (batch_size (description h) + 1) \<Longrightarrow>
          nat (batch_size (description h) + 1) \<le> length idx \<Longrightarrow>
            get_buffer_span h cname (Some s) =
              Inr \<lparr>span_start = advance_ptr (component info) (data buf) (idx ! nat s),
                   span_size = idx ! nat (s + 1) - idx ! nat s\<rparr>"
    using assms(3,4)
    by (simp add: get_buffer_span_present [OF assms(1,2)]
        scenario_range_ragged [where bs = "batch_size (description h)"] range_span_def)
  from u r show ?thesis by blast
qed

lemma example_batch_aligned: "aligned example_batch_handler"
  by (simp add: aligned_def example_batch_handler_def)

lemma example_batch_attached_A: "attached example_batch_handler ''A''"
  by (simp add: attached_def example_batch_handler_def)

lemma example_batch_attached_B: "attached example_batch_handler ''B''"
  by (simp add: attached_def example_batch_handler_def)

lemma example_batch_info_A:
  "get_component_info example_batch_handler ''A'' =
     Inr \<lparr>component = \<lparr>name = ''A'', component_size = 24\<rparr>,
          elements_per_scenario = 3, total_elements = 6\<rparr>"
  by (simp add: get_component_info_present [OF example_batch_attached_A])
     (simp add: example_batch_handler_def)

lemma example_batch_info_B:
  "get_component_info example_batch_handler ''B'' =
     Inr \<lparr>component = \<lparr>name = ''B'', component_size = 1\<rparr>,
          elements_per_scenario = - 1, total_elements = 3\<rparr>"
  by (simp add: get_component_info_present [OF example_batch_attached_B])
     (simp add: example_batch_handler_def)

lemma example_batch_buffer_A:
  "get_buffer example_batch_handler ''A'' = Inr \<lparr>data = Some 1000, indptr = empty_span\<rparr>"
  by (simp add: get_buffer_present [OF example_batch_aligned example_batch_attached_A])
     (simp add: example_batch_handler_def)

lemma example_batch_buffer_B:
  "get_buffer example_batch_handler ''B'' =
     Inr \<lparr>data = Some 5000, indptr = \<lparr>span_ptr = Some [0, 0, 3], span_extent = 3\<rparr>\<rparr>"
  by (simp add: get_buffer_present [OF example_batch_aligned example_batch_attached_B])
     (simp add: example_batch_handler_def)

lemma example_batch_size [simp]: "batch_size (description example_batch_handler) = 2"
  by (simp add: example_batch_handler_def)

theorem get_buffer_span_slice_witness:
  "get_buffer_span example_batch_handler ''A'' (Some 1) =
     Inr \<lparr>span_start = Some 1072, span_size = 3\<rparr> \<and>
   get_buffer_span example_batch_handler ''B'' (Some 1) =
     Inr \<lparr>span_start = Some 5000, span_size = 3\<rparr>"
proof -
  have s: "(0::int) \<le> 1" "(1::int) < batch_size (description example_batch_handler)"
    by simp_all
  from get_buffer_span_slice [OF example_batch_info_A example_batch_buffer_A s]
  have 1: "get_buffer_span example_batch_handler ''A'' (Some 1) =
     Inr \<lparr>span_start = Some 1072, span_size = 3\<rparr>"
    by (simp add: advance_ptr_def)
  from get_buffer_span_slice [OF example_batch_info_B example_batch_buffer_B s, of "[0, 0, 3]"]
  have 2: "get_buffer_span example_batch_handler ''B'' (Some 1) =
     Inr \<lparr>span_start = Some 5000, span_size = 3\<rparr>"
    by (simp add: advance_ptr_def)
  from 1 2 show ?thesis by simp
qed

section \<open>All scenarios at once\<close>

lemma scenario_range_ok:
  assumes "layout_ok bs (info, buf)" and "0 \<le> s" and "s < bs"
  shows "\<exists>r. scenario_range info buf s = Inr r"
proof (cases "0 \<le> elements_per_scenario info")
  case True
  then show ?thesis by (simp add: scenario_range_uniform)
next
  case False
  with assms(1) obtain idx where "span_ptr (indptr buf) = Some idx"
    and "span_extent (indptr buf) = nat (bs + 1)" and "nat (bs + 1) \<le> length idx"
    by (auto simp: layout_ok_def split: option.splits)
  with False assms(2,3) show ?thesis
    by (simp add: scenario_range_ragged [where bs = bs])
qed

lemma collect_spans_ok:
  assumes "\<forall>s \<in> set ss. \<exists>sp. get_buffer_span h cname (Some s) = Inr sp"
  shows "\<exists>sps. collect_spans h cname ss = Inr sps \<and> length sps = length ss \<and>
           (\<forall>i < length ss. get_buffer_span h cname (Some (ss ! i)) = Inr (sps ! i))"
  using assms
proof (induction ss)
  case Nil
  then show ?case by simp
next
  case (Cons s ss)
  from Cons.prems obtain sp where sp: "get_buffer_span h cname (Some s) = Inr sp" by auto
  from Cons obtain sps where sps: "collect_spans h cname ss = Inr sps" "length sps = length ss"
    "\<forall>i < length ss. get_buffer_span h cname (Some (ss ! i)) = Inr (sps ! i)" by auto
  have "\<forall>i < length (s # ss). get_buffer_span h cname (Some ((s # ss) ! i)) = Inr ((sp # sps) ! i)"
    using sp sps(3) by (auto simp: nth_Cons')
  with sp sps(1,2) show ?case by simp
qed

text \<open>
  C6. For an attached component, uniform or ragged, \<open>get_buffer_span_all_scenarios()\<close>
  returns a sequence of length \<open>batch_size\<close> whose \<open>s\<close>-th element is the view that
  \<open>get_buffer_span(s)\<close> returns (same start, same length), for every \<open>s\<close> in
  \<open>[0, batch_size)\<close>.
\<close>

theorem get_buffer_span_all_scenarios_nth:
  assumes "get_component_info h cname = Inr info" and "get_buffer h cname = Inr buf"
    and "layout_ok (batch_size (description h)) (info, buf)"
    and "0 \<le> batch_size (description h)"
  shows "\<exists>spans. get_buffer_span_all_scenarios h cname = Inr spans \<and>
           int (length spans) = batch_size (description h) \<and>
           (\<forall>s. 0 \<le> s \<and> s < batch_size (description h) \<longrightarrow>
                get_buffer_span h cname (Some s) = Inr (spans ! nat s))"
proof -
  let ?bs = "batch_size (description h)"
  let ?ss = "map int [0 ..< nat ?bs]"
  have each: "\<forall>s \<in> set ?ss. \<exists>sp. get_buffer_span h cname (Some s) = Inr sp"
  proof
    fix s assume "s \<in> set ?ss"
    then have s: "0 \<le> s" "s < ?bs" by auto
    from scenario_range_ok [OF assms(3) s] obtain r where "scenario_range info buf s = Inr r" ..
    with s show "\<exists>sp. get_buffer_span h cname (Some s) = Inr sp"
      by (simp add: get_buffer_span_present [OF assms(1,2)])
  qed
  from collect_spans_ok [OF each] obtain sps where sps:
    "collect_spans h cname ?ss = Inr sps" "length sps = length ?ss"
    "\<forall>i < length ?ss. get_buffer_span h cname (Some (?ss ! i)) = Inr (sps ! i)" by blast
  have "\<forall>s. 0 \<le> s \<and> s < ?bs \<longrightarrow> get_buffer_span h cname (Some s) = Inr (sps ! nat s)"
  proof (intro allI impI)
    fix s assume s: "0 \<le> s \<and> s < ?bs"
    then have "nat s < length ?ss" by simp
    with sps(3) have "get_buffer_span h cname (Some (?ss ! nat s)) = Inr (sps ! nat s)" by blast
    moreover have "?ss ! nat s = s" using s by simp
    ultimately show "get_buffer_span h cname (Some s) = Inr (sps ! nat s)" by simp
  qed
  with sps(1,2) assms(4) show ?thesis
    by (simp add: get_buffer_span_all_scenarios_def)
qed

lemma example_batch_layout_A:
  "layout_ok (batch_size (description example_batch_handler))
     (\<lparr>component = \<lparr>name = ''A'', component_size = 24\<rparr>,
       elements_per_scenario = 3, total_elements = 6\<rparr>,
      \<lparr>data = Some 1000, indptr = empty_span\<rparr>)"
  by (simp add: layout_ok_def)

lemma example_batch_layout_B:
  "layout_ok (batch_size (description example_batch_handler))
     (\<lparr>component = \<lparr>name = ''B'', component_size = 1\<rparr>,
       elements_per_scenario = - 1, total_elements = 3\<rparr>,
      \<lparr>data = Some 5000, indptr = \<lparr>span_ptr = Some [0, 0, 3], span_extent = 3\<rparr>\<rparr>)"
  by (simp add: layout_ok_def)

theorem get_buffer_span_all_scenarios_nth_witness:
  "get_buffer_span_all_scenarios example_batch_handler ''B'' =
     Inr [\<lparr>span_start = Some 5000, span_size = 0\<rparr>, \<lparr>span_start = Some 5000, span_size = 3\<rparr>] \<and>
   get_buffer_span example_batch_handler ''B'' (Some 0) =
     Inr \<lparr>span_start = Some 5000, span_size = 0\<rparr> \<and>
   get_buffer_span example_batch_handler ''B'' (Some 1) =
     Inr \<lparr>span_start = Some 5000, span_size = 3\<rparr>"
proof -
  have bs: "0 \<le> batch_size (description example_batch_handler)" by simp
  from get_buffer_span_all_scenarios_nth [OF example_batch_info_B example_batch_buffer_B example_batch_layout_B bs]
  obtain spans where a: "get_buffer_span_all_scenarios example_batch_handler ''B'' = Inr spans"
    and l: "length spans = 2"
    and n: "\<forall>s. 0 \<le> s \<and> s < 2 \<longrightarrow>
              get_buffer_span example_batch_handler ''B'' (Some s) = Inr (spans ! nat s)"
    by auto
  have v: "get_buffer_span example_batch_handler ''B'' (Some 0) =
             Inr \<lparr>span_start = Some 5000, span_size = 0\<rparr>"
     "get_buffer_span example_batch_handler ''B'' (Some 1) =
             Inr \<lparr>span_start = Some 5000, span_size = 3\<rparr>"
    by (simp_all add: get_buffer_span_present [OF example_batch_info_B example_batch_buffer_B]
        scenario_range_def read_span_def read_indptr_def range_span_def advance_ptr_def)
  from n v have "spans ! 0 = \<lparr>span_start = Some 5000, span_size = 0\<rparr>"
    and "spans ! 1 = \<lparr>span_start = Some 5000, span_size = 3\<rparr>"
    by auto
  with l have "spans = [\<lparr>span_start = Some 5000, span_size = 0\<rparr>,
                        \<lparr>span_start = Some 5000, span_size = 3\<rparr>]"
    by (auto simp: nth_equalityI length_Suc_conv numeral_2_eq_2)
  with a v show ?thesis by simp
qed

section \<open>Well-formed buffers are what the attach call builds\<close>

lemma add_buffer_Returned:
  assumes "add_buffer h cname eps tot ip d = Returned h'"
  shows "\<exists>c. h' = h\<lparr>description := (description h)\<lparr>component_info :=
                         component_info (description h) @
                         [\<lparr>component = c, elements_per_scenario = eps, total_elements = tot\<rparr>]\<rparr>,
                       buffers := buffers h @ [\<lparr>data = d, indptr = make_indptr_span h ip\<rparr>]\<rparr> \<and>
             check_non_uniform_integrity True h eps tot ip = None"
proof (cases "attached h cname")
  case True
  with assms show ?thesis by (simp add: add_buffer_def add_component_info_dup)
next
  case na: False
  show ?thesis
  proof (cases "get_component (dataset (description h)) cname")
    case (Inl e)
    with assms na show ?thesis
      by (simp add: add_buffer_def add_component_info_def find_component_absent)
  next
    case (Inr c)
    show ?thesis
    proof (cases "eps < 0 \<or> tot = idx_mul eps (batch_size (description h))")
      case False
      with assms add_component_info_mismatch [OF na Inr, of eps tot] show ?thesis
        by (simp add: add_buffer_def)
    next
      case ok: True
      show ?thesis
      proof (cases "check_non_uniform_integrity True h eps tot ip")
        case None
        from add_buffer_ok [OF na Inr ok None, of d] assms None show ?thesis by auto
      next
        case (Some e)
        from add_buffer_check_fails [OF na Inr ok Some, of d] assms show ?thesis by simp
      qed
    qed
  qed
qed

lemma layout_ok_checked:
  assumes "check_non_uniform_integrity True h eps tot ip = None"
    and "idx_range (batch_size (description h))"
  shows "layout_ok (batch_size (description h))
           (\<lparr>component = c, elements_per_scenario = eps, total_elements = tot\<rparr>,
            \<lparr>data = d, indptr = make_indptr_span h ip\<rparr>)"
proof (cases "0 \<le> eps")
  case True
  then show ?thesis by (simp add: layout_ok_def)
next
  case False
  with assms(1) obtain xs where ip: "ip = Some xs"
    and rd: "read_indptr xs (batch_size (description h)) \<noteq> None"
    by (auto simp: check_non_uniform_integrity_def split: option.splits if_splits)
  from rd have b: "0 \<le> batch_size (description h)" "batch_size (description h) < int (length xs)"
    by (auto simp: read_indptr_def split: if_splits)
  from b(1) assms(2) have "size_t_cast (batch_size (description h) + 1) =
                            nat (batch_size (description h) + 1)"
    by (simp add: size_t_cast_nat idx_range_def)
  moreover from b have "nat (batch_size (description h) + 1) \<le> length xs" by linarith
  ultimately show ?thesis using ip by (simp add: layout_ok_def make_indptr_span_def)
qed

lemma buffers_ok_construct:
  "construct meta b n ds = Inr h \<Longrightarrow> buffers_ok h"
  by (auto simp: construct_def buffers_ok_def aligned_def split: sum.splits if_splits)

lemma buffers_ok_add_buffer:
  assumes "buffers_ok h" and "idx_range (batch_size (description h))"
    and "add_buffer h cname eps tot ip d = Returned h'"
  shows "buffers_ok h'"
proof -
  from add_buffer_Returned [OF assms(3)] obtain c where
    h': "h' = h\<lparr>description := (description h)\<lparr>component_info :=
                         component_info (description h) @
                         [\<lparr>component = c, elements_per_scenario = eps, total_elements = tot\<rparr>]\<rparr>,
                       buffers := buffers h @ [\<lparr>data = d, indptr = make_indptr_span h ip\<rparr>]\<rparr>"
    and chk: "check_non_uniform_integrity True h eps tot ip = None" by blast
  from assms(1) have len: "length (component_info (description h)) = length (buffers h)"
    by (simp add: buffers_ok_def aligned_def)
  from assms(1) len layout_ok_checked [OF chk assms(2), of c d] show ?thesis
    by (simp add: h' buffers_ok_def aligned_def)
qed

lemma add_buffer_batch_size:
  "add_buffer h cname eps tot ip d = Returned h' \<Longrightarrow>
     batch_size (description h') = batch_size (description h)"
  by (auto dest!: add_buffer_Returned)

section \<open>The view of a single scenario\<close>

lemma attachedI:
  "x \<in> set (component_info (description h)) \<Longrightarrow> name (component x) = cname \<Longrightarrow>
     attached h cname"
  unfolding attached_def by force

lemma find_if_cong_nth:
  assumes "length xs = length ys" and "\<forall>i < length xs. P (xs ! i) = Q (ys ! i)"
  shows "find_if P xs = find_if Q ys"
  using assms
proof (induction xs arbitrary: ys)
  case Nil
  then show ?case by simp
next
  case (Cons x xs)
  then obtain y ys' where ys: "ys = y # ys'" by (cases ys) auto
  from Cons.prems ys have hd: "P x = Q y" by auto
  from Cons.prems ys have "\<forall>i < length xs. P (xs ! i) = Q (ys' ! i)" by auto
  with Cons.IH [of ys'] Cons.prems ys have "find_if P xs = find_if Q ys'" by simp
  with hd ys show ?case by simp
qed

lemma slice_all_ok:
  assumes "\<forall>z \<in> set zs. \<exists>c. slice_component s z = Inr c"
  shows "\<exists>cs. slice_all s zs = Inr cs \<and> length cs = length zs \<and>
           (\<forall>i < length zs. slice_component s (zs ! i) = Inr (cs ! i))"
  using assms
proof (induction zs)
  case Nil
  then show ?case by simp
next
  case (Cons z zs)
  from Cons.prems obtain c where c: "slice_component s z = Inr c" by auto
  from Cons obtain cs where cs: "slice_all s zs = Inr cs" "length cs = length zs"
    "\<forall>i < length zs. slice_component s (zs ! i) = Inr (cs ! i)" by auto
  have "\<forall>i < length (z # zs). slice_component s ((z # zs) ! i) = Inr ((c # cs) ! i)"
    using c cs(3) by (auto simp: nth_Cons')
  with c cs(1,2) show ?case by simp
qed

lemma slice_component_ok:
  assumes "layout_ok bs z" and "0 \<le> s" and "s < bs"
  shows "\<exists>c. slice_component s z = Inr c"
proof -
  from assms(1) have "layout_ok bs (fst z, snd z)" by simp
  from scenario_range_ok [OF this assms(2,3)] obtain r
    where "scenario_range (fst z) (snd z) s = Inr r" ..
  then show ?thesis by (simp add: slice_component_def)
qed

lemma slice_component_result:
  assumes "slice_component s (info, buf) = Inr c"
  shows "\<exists>r. scenario_range info buf s = Inr r \<and>
              component (fst c) = component info \<and>
              elements_per_scenario (fst c) = snd r - fst r \<and>
              total_elements (fst c) = snd r - fst r \<and>
              data (snd c) = advance_ptr (component info) (data buf) (fst r)"
  using assms by (auto simp: slice_component_def split: sum.splits)

text \<open>
  C7. For a handler with well-formed buffers and a scenario \<open>s\<close> in \<open>[0, batch_size)\<close>,
  \<open>get_individual_scenario(s)\<close> returns a non-batch handler with \<open>batch_size = 1\<close> and
  the same number of components; for every attached component, the whole view of the
  result equals the source's \<open>get_buffer_span(s)\<close> (same start address inside the caller's
  buffer, hence nothing copied, and same length), and the component's
  \<open>elements_per_scenario\<close> and \<open>total_elements\<close> both equal that length.
\<close>

theorem get_individual_scenario_view:
  assumes "buffers_ok h" and "0 \<le> s" and "s < batch_size (description h)"
  shows "\<exists>r. get_individual_scenario h s = Inr r \<and>
           \<not> is_batch (description r) \<and> batch_size (description r) = 1 \<and>
           n_components r = n_components h \<and>
           (\<forall>cname. attached h cname \<longrightarrow>
              (\<exists>info sp. get_component_info r cname = Inr info \<and>
                 get_buffer_span h cname (Some s) = Inr sp \<and>
                 get_buffer_span r cname None = Inr sp \<and>
                 elements_per_scenario info = span_size sp \<and>
                 total_elements info = span_size sp))"
proof -
  let ?infos = "component_info (description h)"
  let ?bufs = "buffers h"
  let ?zs = "zip ?infos ?bufs"
  from assms(1) have al: "aligned h"
    and lay: "list_all (layout_ok (batch_size (description h))) ?zs"
    by (simp_all add: buffers_ok_def)
  from al have len: "length ?bufs = length ?infos" by (simp add: aligned_def)
  have "\<forall>z \<in> set ?zs. \<exists>c. slice_component s z = Inr c"
    using lay slice_component_ok [OF _ assms(2,3)] by (auto simp: list_all_iff)
  from slice_all_ok [OF this] obtain cs where cs: "slice_all s ?zs = Inr cs"
    "length cs = length ?zs"
    "\<forall>i < length ?zs. slice_component s (?zs ! i) = Inr (cs ! i)" by blast
  define r where "r = \<lparr>description =
                    \<lparr>is_batch = False, batch_size = 1, dataset = dataset (description h),
                     component_info = map fst cs\<rparr>,
                  buffers = map snd cs\<rparr>"
  have res: "get_individual_scenario h s = Inr r"
    using assms(2,3) cs(1) by (simp add: get_individual_scenario_def r_def)
  have lcs: "length cs = length ?infos" using cs(2) len by simp
  have basic: "\<not> is_batch (description r)" "batch_size (description r) = 1"
    "n_components r = n_components h"
    by (simp_all add: r_def n_components_def lcs len)
  have ralign: "aligned r" by (simp add: r_def aligned_def)
  have each: "\<exists>info sp. get_component_info r cname = Inr info \<and>
                 get_buffer_span h cname (Some s) = Inr sp \<and>
                 get_buffer_span r cname None = Inr sp \<and>
                 elements_per_scenario info = span_size sp \<and>
                 total_elements info = span_size sp" if att: "attached h cname" for cname
  proof -
    let ?P = "\<lambda>x. name (component x) = cname"
    let ?k = "find_if ?P ?infos"
    have k: "?k < length ?infos" by (rule find_if_attached_less [OF att])
    have nth_slice: "slice_component s (?infos ! i, ?bufs ! i) = Inr (cs ! i)"
      if "i < length ?infos" for i
      using cs(3) that len by simp
    have names: "\<forall>i < length (map fst cs). ?P (map fst cs ! i) = ?P (?infos ! i)"
    proof (intro allI impI)
      fix i assume "i < length (map fst cs)"
      then have i: "i < length ?infos" using lcs by simp
      from slice_component_result [OF nth_slice [OF i]]
      have "component (fst (cs ! i)) = component (?infos ! i)" by blast
      with i lcs show "?P (map fst cs ! i) = ?P (?infos ! i)" by simp
    qed
    have kk: "find_if ?P (map fst cs) = ?k"
      by (rule find_if_cong_nth [OF _ names]) (simp add: lcs)
    have Pk: "?P (?infos ! ?k)" by (rule find_if_nth [OF k])
    have ratt: "attached r cname"
    proof -
      from names k lcs Pk have "?P (map fst cs ! ?k)" by simp
      moreover have "map fst cs ! ?k \<in> set (map fst cs)"
        by (rule nth_mem) (simp add: k lcs)
      moreover have "component_info (description r) = map fst cs" by (simp add: r_def)
      ultimately show ?thesis using attachedI [of "map fst cs ! ?k" r cname] by simp
    qed
    have rinfo: "get_component_info r cname = Inr (fst (cs ! ?k))"
      using k lcs kk by (simp add: get_component_info_present [OF ratt]) (simp add: r_def)
    have rbuf: "get_buffer r cname = Inr (snd (cs ! ?k))"
      using k lcs kk by (simp add: get_buffer_present [OF ralign ratt]) (simp add: r_def)
    have hinfo: "get_component_info h cname = Inr (?infos ! ?k)"
      by (rule get_component_info_present [OF att])
    have hbuf: "get_buffer h cname = Inr (?bufs ! ?k)"
      by (rule get_buffer_present [OF al att])
    from slice_component_result [OF nth_slice [OF k]] obtain rg where
      rg: "scenario_range (?infos ! ?k) (?bufs ! ?k) s = Inr rg"
      and e: "elements_per_scenario (fst (cs ! ?k)) = snd rg - fst rg"
      and t: "total_elements (fst (cs ! ?k)) = snd rg - fst rg"
      and d: "data (snd (cs ! ?k)) = advance_ptr (component (?infos ! ?k)) (data (?bufs ! ?k)) (fst rg)"
      by blast
    let ?sp = "range_span (?infos ! ?k) (?bufs ! ?k) rg"
    have hs: "get_buffer_span h cname (Some s) = Inr ?sp"
      using assms(2,3) rg by (simp add: get_buffer_span_present [OF hinfo hbuf])
    have rs: "get_buffer_span r cname None = Inr ?sp"
      using t d by (simp add: get_buffer_span_present [OF rinfo rbuf] range_span_def)
    from rinfo hs rs e t show ?thesis by (simp add: range_span_def)
  qed
  from res basic each show ?thesis by blast
qed

text \<open>
  The test handler is built by the constructor and two \<open>add_buffer\<close> calls, so its
  buffers are well-formed.
\<close>

lemma example_batch_ok: "buffers_ok example_batch_handler"
proof -
  let ?r1 = "add_buffer example_handler ''A'' 3 6 None (Some 1000)"
  have ok0: "buffers_ok example_handler"
    by (rule buffers_ok_construct [OF construct_example])
  have "check_non_uniform_integrity True example_handler 3 6 None = None"
    by (simp add: check_non_uniform_integrity_uniform)
  from add_buffer_ok [OF example_not_attached get_component_example_A _ this, of "Some 1000"]
  have r1: "?r1 = Returned (state_of ?r1)" by (simp add: idx_mul_def idx_wrap_def)
  have rg: "idx_range (batch_size (description example_handler))"
    by (simp add: idx_range_def)
  from buffers_ok_add_buffer [OF ok0 rg r1] have ok1: "buffers_ok (state_of ?r1)" .
  from add_buffer_batch_size [OF r1] have "idx_range (batch_size (description (state_of ?r1)))"
    by (simp add: idx_range_def)
  from buffers_ok_add_buffer [OF ok1 this example_batch_built] show ?thesis .
qed

theorem get_individual_scenario_view_witness:
  "get_individual_scenario example_batch_handler 1 =
     Inr \<lparr>description =
            \<lparr>is_batch = False, batch_size = 1, dataset = hd example_meta,
             component_info =
               [\<lparr>component = \<lparr>name = ''A'', component_size = 24\<rparr>,
                 elements_per_scenario = 3, total_elements = 3\<rparr>,
                \<lparr>component = \<lparr>name = ''B'', component_size = 1\<rparr>,
                 elements_per_scenario = 3, total_elements = 3\<rparr>]\<rparr>,
          buffers =
            [\<lparr>data = Some 1072, indptr = empty_span\<rparr>,
             \<lparr>data = Some 5000, indptr = empty_span\<rparr>]\<rparr> \<and>
   get_buffer_span (projr (get_individual_scenario example_batch_handler 1)) ''A'' None =
     get_buffer_span example_batch_handler ''A'' (Some 1)"
proof -
  have s: "(0::int) \<le> 1" "(1::int) < batch_size (description example_batch_handler)"
    by simp_all
  from get_individual_scenario_view [OF example_batch_ok s] obtain r where
    r: "get_individual_scenario example_batch_handler 1 = Inr r"
    and sp: "\<forall>cname. attached example_batch_handler cname \<longrightarrow>
              (\<exists>info sp. get_component_info r cname = Inr info \<and>
                 get_buffer_span example_batch_handler cname (Some 1) = Inr sp \<and>
                 get_buffer_span r cname None = Inr sp \<and>
                 elements_per_scenario info = span_size sp \<and>
                 total_elements info = span_size sp)"
    by blast
  from sp example_batch_attached_A
  have eq: "get_buffer_span r ''A'' None = get_buffer_span example_batch_handler ''A'' (Some 1)"
    by fastforce
  have v: "get_individual_scenario example_batch_handler 1 =
     Inr \<lparr>description =
            \<lparr>is_batch = False, batch_size = 1, dataset = hd example_meta,
             component_info =
               [\<lparr>component = \<lparr>name = ''A'', component_size = 24\<rparr>,
                 elements_per_scenario = 3, total_elements = 3\<rparr>,
                \<lparr>component = \<lparr>name = ''B'', component_size = 1\<rparr>,
                 elements_per_scenario = 3, total_elements = 3\<rparr>]\<rparr>,
          buffers =
            [\<lparr>data = Some 1072, indptr = empty_span\<rparr>,
             \<lparr>data = Some 5000, indptr = empty_span\<rparr>]\<rparr>"
    by (simp add: get_individual_scenario_def example_batch_handler_def slice_component_def
        scenario_range_def read_span_def read_indptr_def advance_ptr_def empty_span_def)
  from r eq v show ?thesis by simp
qed

section \<open>Round trip through the columnar overlay\<close>

lemma scatter_ok:
  assumes "distinct (map snd aps)" and "\<forall>p \<in> set (map snd aps). i < length (mem p)"
  shows "\<exists>mem'. scatter mem i aps v = Inr mem' \<and>
           (\<forall>(a, p) \<in> set aps. mem' p = (mem p)[i := v (attribute_name a)]) \<and>
           (\<forall>p. p \<notin> set (map snd aps) \<longrightarrow> mem' p = mem p)"
  using assms
proof (induction aps arbitrary: mem)
  case Nil
  then show ?case by simp
next
  case (Cons ap aps)
  obtain a p where ap: "ap = (a, p)" by (cases ap)
  let ?m = "mem(p := (mem p)[i := v (attribute_name a)])"
  from Cons.prems ap have p: "i < length (mem p)" and pn: "p \<notin> set (map snd aps)"
    and d: "distinct (map snd aps)" by auto
  have "\<forall>q \<in> set (map snd aps). i < length (?m q)" using Cons.prems ap by auto
  from Cons.IH [OF d this] obtain mem' where m: "scatter ?m i aps v = Inr mem'"
    "\<forall>(b, q) \<in> set aps. mem' q = (?m q)[i := v (attribute_name b)]"
    "\<forall>q. q \<notin> set (map snd aps) \<longrightarrow> mem' q = ?m q" by blast
  have 1: "scatter mem i (ap # aps) v = Inr mem'" using ap p m(1) by simp
  have 2: "\<forall>(b, q) \<in> set (ap # aps). mem' q = (mem q)[i := v (attribute_name b)]"
  proof -
    have "mem' p = (mem p)[i := v (attribute_name a)]" using m(3) pn by simp
    moreover have "\<forall>(b, q) \<in> set aps. mem' q = (mem q)[i := v (attribute_name b)]"
    proof (clarify)
      fix b q assume bq: "(b, q) \<in> set aps"
      then have "q \<in> set (map snd aps)" by force
      with pn have "q \<noteq> p" by auto
      with m(2) bq show "mem' q = (mem q)[i := v (attribute_name b)]" by auto
    qed
    ultimately show ?thesis using ap by simp
  qed
  have 3: "\<forall>q. q \<notin> set (map snd (ap # aps)) \<longrightarrow> mem' q = mem q"
    using m(3) ap by auto
  from 1 2 3 show ?case by blast
qed

lemma gather_ok:
  assumes "\<forall>(a, p) \<in> set aps. i < length (mem p) \<and> mem p ! i = v (attribute_name a)"
  shows "gather mem i aps r =
           Inr (\<lambda>a. if a \<in> set (map (attribute_name \<circ> fst) aps) then v a else r a)"
  using assms
proof (induction aps arbitrary: r)
  case Nil
  then show ?case by simp
next
  case (Cons ap aps)
  obtain a p where ap: "ap = (a, p)" by (cases ap)
  from Cons.prems ap have p: "i < length (mem p)" "mem p ! i = v (attribute_name a)" by auto
  from Cons.prems have "\<forall>(a, p) \<in> set aps. i < length (mem p) \<and> mem p ! i = v (attribute_name a)"
    by auto
  from Cons.IH [OF this, of "r(attribute_name a := mem p ! i)"]
  have "gather mem i aps (r(attribute_name a := mem p ! i)) =
          Inr (\<lambda>b. if b \<in> set (map (attribute_name \<circ> fst) aps) then v b
                    else (r(attribute_name a := mem p ! i)) b)" .
  moreover have "(\<lambda>b. if b \<in> set (map (attribute_name \<circ> fst) aps) then v b
                    else (r(attribute_name a := mem p ! i)) b) =
                 (\<lambda>b. if b \<in> set (map (attribute_name \<circ> fst) (ap # aps)) then v b else r b)"
    using p(2) ap by (auto simp: fun_eq_iff)
  ultimately show ?case using p(1) ap by simp
qed

text \<open>
  C8. For an overlay over independently allocated attribute columns of at least \<open>n\<close>
  elements, an index \<open>i\<close> in \<open>[0, n)\<close> and a logical record \<open>v\<close>: assigning \<open>v\<close> to the
  proxy at \<open>i\<close> succeeds, and reading the proxy at \<open>i\<close> afterwards yields a record whose
  every attached attribute is the field of \<open>v\<close> and whose every other attribute is
  not-a-value; every array that is not one of the overlay's columns is left as it was.
\<close>

theorem overlay_round_trip:
  assumes "overlay_ok mem ro" and "element ro i = Inr px"
  shows "\<exists>mem' r. proxy_assign mem px v = Inr mem' \<and> proxy_get mem' px = Inr r \<and>
           (\<forall>a. r a = (if a \<in> set (map attribute_name (ro_attributes ro)) then v a else None)) \<and>
           (\<forall>p. p \<notin> set (ro_buffers ro) \<longrightarrow> mem' p = mem p)"
proof -
  let ?aps = "zip (ro_attributes ro) (ro_buffers ro)"
  from assms(2) have i: "0 \<le> i" "i < ro_size ro"
    and px: "px = \<lparr>proxy_idx = nat i, proxy_buffers = ro_buffers ro,
                    proxy_attributes = ro_attributes ro\<rparr>"
    by (auto simp: element_def split: if_splits)
  from assms(1) have len: "length (ro_buffers ro) = length (ro_attributes ro)"
    and dist: "distinct (ro_buffers ro)"
    and big: "\<forall>p \<in> set (ro_buffers ro). ro_size ro \<le> int (length (mem p))"
    by (auto simp: overlay_ok_def list_all_iff)
  have snd: "map snd ?aps = ro_buffers ro" and fst: "map fst ?aps = ro_attributes ro"
    using len by simp_all
  have inr: "\<forall>p \<in> set (map snd ?aps). nat i < length (mem p)"
    using big i by (auto simp: snd)
  from scatter_ok [of ?aps "nat i" mem v] dist inr obtain mem' where
    m: "scatter mem (nat i) ?aps v = Inr mem'"
    "\<forall>(a, p) \<in> set ?aps. mem' p = (mem p)[nat i := v (attribute_name a)]"
    "\<forall>p. p \<notin> set (map snd ?aps) \<longrightarrow> mem' p = mem p"
    by (auto simp only: snd)
  have rd: "\<forall>(a, p) \<in> set ?aps. nat i < length (mem' p) \<and> mem' p ! nat i = v (attribute_name a)"
  proof (clarify)
    fix a p assume ap: "(a, p) \<in> set ?aps"
    then have "p \<in> set (map snd ?aps)" by force
    with inr have "nat i < length (mem p)" by blast
    moreover from m(2) ap have "mem' p = (mem p)[nat i := v (attribute_name a)]" by auto
    ultimately show "nat i < length (mem' p) \<and> mem' p ! nat i = v (attribute_name a)" by simp
  qed
  have names: "map (attribute_name \<circ> fst) ?aps = map attribute_name (ro_attributes ro)"
    using fst by (metis map_map)
  have g: "proxy_get mem' px =
        Inr (\<lambda>a. if a \<in> set (map attribute_name (ro_attributes ro)) then v a else None)"
    using gather_ok [OF rd, of unset_record]
    by (simp only: proxy_get_def px names proxy.simps unset_record_def)
  have a: "proxy_assign mem px v = Inr mem'" using m(1) by (simp add: proxy_assign_def px)
  from a g m(3) show ?thesis by (simp add: snd)
qed

lemma example_overlay_ok: "overlay_ok example_memory example_range_object"
  by (simp add: overlay_ok_def example_range_object_def example_memory_def)

lemma example_element:
  "element example_range_object 1 = Inr \<lparr>proxy_idx = 1, proxy_buffers = [1, 2],
     proxy_attributes = [\<lparr>attribute_name = ''a1'', attribute_offset = 16\<rparr>,
                         \<lparr>attribute_name = ''id'', attribute_offset = 0\<rparr>]\<rparr>"
  by (simp add: element_def example_range_object_def)

theorem overlay_round_trip_witness:
  "projr (proxy_get (projr (proxy_assign example_memory (projr (element example_range_object 1))
       example_record)) (projr (element example_range_object 1))) ''id'' = Some 20 \<and>
   projr (proxy_get (projr (proxy_assign example_memory (projr (element example_range_object 1))
       example_record)) (projr (element example_range_object 1))) ''a1'' = None \<and>
   projr (proxy_get (projr (proxy_assign example_memory (projr (element example_range_object 1))
       example_record)) (projr (element example_range_object 1))) ''a0'' = None \<and>
   projr (proxy_assign example_memory (projr (element example_range_object 1)) example_record) 3 =
     [Some 7, Some 8, Some 9]"
proof -
  from overlay_round_trip [OF example_overlay_ok example_element, of example_record]
  obtain mem' r where
    a: "proxy_assign example_memory (projr (element example_range_object 1)) example_record = Inr mem'"
    and g: "proxy_get mem' (projr (element example_range_object 1)) = Inr r"
    and f: "\<forall>a. r a = (if a \<in> set (map attribute_name (ro_attributes example_range_object))
                       then example_record a else None)"
    and u: "\<forall>p. p \<notin> set (ro_buffers example_range_object) \<longrightarrow> mem' p = example_memory p"
    by (auto simp: example_element)
  have "r ''id'' = Some 20" "r ''a1'' = None" "r ''a0'' = None"
    using f by (simp_all add: example_range_object_def example_record_def)
  moreover have "mem' 3 = [Some 7, Some 8, Some 9]"
    using u by (simp add: example_range_object_def example_memory_def)
  ultimately show ?thesis using a g by simp
qed

section \<open>What a failed attach call leaves behind\<close>

lemma add_buffer_example_missing_index:
  "add_buffer example_handler ''B'' (- 1) 3 None (Some 5000) =
     Thrown (DatasetError IndptrNotSupplied)
       (push_component example_handler
          \<lparr>component = \<lparr>name = ''B'', component_size = 1\<rparr>,
           elements_per_scenario = - 1, total_elements = 3\<rparr>)"
  by (rule add_buffer_check_fails [OF example_not_attached get_component_example_B])
     (simp_all add: check_non_uniform_integrity_null)

text \<open>
  C1. An attach call that fails is claimed to leave the handler as it was. On the
  two-scenario handler, \<open>add_component_info("A", 1, 5)\<close> fails the uniform cardinality
  check, and yet the handler then has one component and one more component-info entry
  than before; a following, well-formed \<open>add_component_info("A", 1, 2)\<close> is rejected as
  a duplicate. Likewise \<open>add_buffer("B", -1, 3, nullptr, data)\<close> fails for the missing
  offset index and leaves the component registered.
\<close>

theorem add_component_info_failed_check_leaves_entry:
  "fails_with_DatasetError (add_component_info example_handler ''A'' 1 5) \<and>
   n_components example_handler = 0 \<and>
   n_components (state_of (add_component_info example_handler ''A'' 1 5)) = 1 \<and>
   component_info (get_description (state_of (add_component_info example_handler ''A'' 1 5))) \<noteq>
     component_info (get_description example_handler) \<and>
   add_component_info (state_of (add_component_info example_handler ''A'' 1 5)) ''A'' 1 2 =
     Thrown (DatasetError DuplicatedComponents)
       (state_of (add_component_info example_handler ''A'' 1 5)) \<and>
   fails_with_DatasetError (add_buffer example_handler ''B'' (- 1) 3 None (Some 5000)) \<and>
   n_components (state_of (add_buffer example_handler ''B'' (- 1) 3 None (Some 5000))) = 1"
  apply (simp add: add_component_info_example_mismatch add_buffer_example_missing_index)
  apply (simp add: fails_with_DatasetError_def n_components_def push_component_def
      example_handler_def get_description_def empty_Buffer_def add_component_info_def
      find_component_def)
  done

text \<open>
  The failures that are detected before the first mutation do leave the handler as it
  was: a duplicate name in \<open>add_component_info\<close> and \<open>add_buffer\<close>, and every failure of
  \<open>set_buffer\<close>.
\<close>

lemma duplicate_attach_unchanged:
  "attached h cname \<Longrightarrow>
     state_of (add_component_info h cname eps tot) = h \<and>
     state_of (add_buffer h cname eps tot ip d) = h"
  by (simp add: add_buffer_def add_component_info_dup)

lemma set_buffer_failure_unchanged:
  "\<not> succeeds (set_buffer h cname ip d) \<Longrightarrow> state_of (set_buffer h cname ip d) = h"
  by (auto simp: set_buffer_def store_buffer_def succeeds_def
      split: sum.splits option.splits if_splits)

end
